theory Spec2Isabelle
  imports Complex_Main "HOL-Library.Word" "HOL-Library.Signed_Division"
begin

unbundle bit_operations_syntax

section \<open>Bytes, tags and errors\<close>

text \<open>
  The container is a sequence of bytes.  Go's \<open>byte\<close>, \<open>uint16\<close>, \<open>uint32\<close> and
  \<open>int32\<close> are words of that width; Go's \<open>int\<close> and \<open>int64\<close> values that only
  count or index (stream indices, cursor positions, tick counters) are \<open>int\<close>, and the
  64-bit durations of \<open>time.Duration\<close>, whose products can wrap, are \<open>64 word\<close>.
\<close>

type_synonym byte = "8 word"
type_synonym uint16 = "16 word"
type_synonym uint32 = "32 word"
type_synonym int64 = "64 word"

text \<open>A \<open>[4]byte\<close> array: exactly four bytes.\<close>

type_synonym fourcc = "byte \<times> byte \<times> byte \<times> byte"

fun fourcc_bytes :: "fourcc \<Rightarrow> byte list" where
  "fourcc_bytes (a, b, c, d) = [a, b, c, d]"

text \<open>
  Go errors and run-time panics as values.  \<open>AVIError op e\<close> is the repository's
  \<open>&AVIError{Op: op, Err: e}\<close>; \<open>EOF\<close> and \<open>ErrUnexpectedEOF\<close> are the two
  end-of-data errors of package \<open>io\<close>; \<open>ErrorString\<close> is an \<open>errors.New\<close> or
  \<open>fmt.Errorf\<close> value; \<open>Panic\<close> is a run-time panic (index out of range, integer
  division by zero).
\<close>

datatype error =
    EOF
  | ErrUnexpectedEOF
  | ErrorString string
  | AVIError string error
  | Panic string

subsection \<open>format.go: constants\<close>

definition RIFFSignature :: fourcc where "RIFFSignature = (0x52, 0x49, 0x46, 0x46)"
definition AVISignature :: fourcc where "AVISignature = (0x41, 0x56, 0x49, 0x20)"
definition LISTSignature :: fourcc where "LISTSignature = (0x4C, 0x49, 0x53, 0x54)"
definition HDRLList :: fourcc where "HDRLList = (0x68, 0x64, 0x72, 0x6C)"
definition STRLList :: fourcc where "STRLList = (0x73, 0x74, 0x72, 0x6C)"
definition MOVIList :: fourcc where "MOVIList = (0x6D, 0x6F, 0x76, 0x69)"
definition AVIHChunk :: fourcc where "AVIHChunk = (0x61, 0x76, 0x69, 0x68)"
definition STRHChunk :: fourcc where "STRHChunk = (0x73, 0x74, 0x72, 0x68)"
definition STRFChunk :: fourcc where "STRFChunk = (0x73, 0x74, 0x72, 0x66)"
definition IDX1Chunk :: fourcc where "IDX1Chunk = (0x69, 0x64, 0x78, 0x31)"
definition STREAMTypeVideo :: fourcc where "STREAMTypeVideo = (0x76, 0x69, 0x64, 0x73)"
definition STREAMTypeAudio :: fourcc where "STREAMTypeAudio = (0x61, 0x75, 0x64, 0x73)"

text \<open>The two-letter payload subtypes \<open>"dc"\<close>, \<open>"db"\<close> and \<open>"wb"\<close>, as byte strings.\<close>

definition twoCC_dc :: "byte list" where "twoCC_dc = [0x64, 0x63]"
definition twoCC_db :: "byte list" where "twoCC_db = [0x64, 0x62]"
definition twoCC_wb :: "byte list" where "twoCC_wb = [0x77, 0x62]"

subsection \<open>encoding/binary, little endian\<close>

definition le16 :: "uint16 \<Rightarrow> byte list" where
  "le16 w = [ucast w, ucast (drop_bit 8 w)]"

definition le32 :: "uint32 \<Rightarrow> byte list" where
  "le32 w = [ucast w, ucast (drop_bit 8 w), ucast (drop_bit 16 w), ucast (drop_bit 24 w)]"

definition rd16 :: "byte list \<Rightarrow> uint16" where
  "rd16 bs = ucast (bs ! 0) OR push_bit 8 (ucast (bs ! 1))"

definition rd32 :: "byte list \<Rightarrow> uint32" where
  "rd32 bs = ucast (bs ! 0) OR push_bit 8 (ucast (bs ! 1))
             OR push_bit 16 (ucast (bs ! 2)) OR push_bit 24 (ucast (bs ! 3))"

definition rd_fourcc :: "byte list \<Rightarrow> fourcc" where
  "rd_fourcc bs = (bs ! 0, bs ! 1, bs ! 2, bs ! 3)"

subsection \<open>format.go: helpers\<close>

text \<open>
  \<open>MakeChunkID\<close>: \<open>byte('0' + streamIndex / 10)\<close> and \<open>byte('0' + streamIndex % 10)\<close>
  are computed on Go's \<open>int\<close> (division truncating towards zero, remainder with the sign
  of the dividend) and then truncated to a byte; \<open>twoCC[0]\<close> and \<open>twoCC[1]\<close> panic on
  a string shorter than two bytes.
\<close>

definition MakeChunkID :: "int \<Rightarrow> byte list \<Rightarrow> error + fourcc" where
  "MakeChunkID streamIndex twoCC =
     (if length twoCC < 2 then Inl (Panic ''index out of range'')
      else Inr (word_of_int (48 + streamIndex sdiv 10),
                word_of_int (48 + streamIndex smod 10),
                twoCC ! 0, twoCC ! 1))"

text \<open>\<open>AlignSize\<close>: \<open>(size + 1) &^ 1\<close> on \<open>uint32\<close>.\<close>

definition AlignSize :: "uint32 \<Rightarrow> uint32" where
  "AlignSize sz = (sz + 1) AND NOT 1"

text \<open>
  The stream index that \<open>ReadAllPackets\<close> decodes from a chunk tag:
  \<open>int((chunkID[0]-'0')*10 + (chunkID[1]-'0'))\<close>, where the arithmetic is on bytes
  and only the result is widened.
\<close>

definition decodeStreamIndex :: "fourcc \<Rightarrow> int" where
  "decodeStreamIndex chunkID =
     (case chunkID of (c0, c1, c2, c3) \<Rightarrow> uint ((c0 - 48) * 10 + (c1 - 48)))"

section \<open>buffer.go: the seekable memory buffer\<close>

text \<open>
  \<open>buf\<close> is the content of the wrapped \<open>bytes.Buffer\<close> (nothing is ever consumed
  from it, so \<open>Len()\<close> is the content length), \<open>pos\<close> the cursor.
\<close>

record SeekableBuffer =
  buf :: "byte list"
  pos :: int

definition NewSeekableBuffer :: SeekableBuffer where
  "NewSeekableBuffer = \<lparr>buf = [], pos = 0\<rparr>"

text \<open>
  \<open>Write\<close> returns the number of bytes written and the buffer after the call.
  \<open>bytes.Buffer.Write\<close> never returns an error; the slice expression
  \<open>currentData[:sb.pos]\<close> panics for a negative cursor.
\<close>

definition SeekableBuffer_Write ::
  "SeekableBuffer \<Rightarrow> byte list \<Rightarrow> error + (nat \<times> SeekableBuffer)" where
  "SeekableBuffer_Write sb p =
     (let currentLen = int (length (buf sb)) in
      if pos sb < currentLen then
        (if pos sb < 0 then Inl (Panic ''slice bounds out of range'')
         else
           let currentData = buf sb;
               newBuf = take (nat (pos sb)) currentData @ p;
               n = length p;
               endPos = pos sb + int n;
               newBuf' = (if endPos < currentLen
                          then newBuf @ drop (nat endPos) currentData else newBuf)
           in Inr (n, \<lparr>buf = newBuf', pos = pos sb + int n\<rparr>))
      else
        Inr (length p, \<lparr>buf = buf sb @ p, pos = pos sb + int (length p)\<rparr>))"

text \<open>\<open>whence\<close> is \<open>io.SeekStart = 0\<close>, \<open>io.SeekCurrent = 1\<close> or \<open>io.SeekEnd = 2\<close>.\<close>

definition SeekableBuffer_Seek ::
  "SeekableBuffer \<Rightarrow> int \<Rightarrow> int \<Rightarrow> error + (int \<times> SeekableBuffer)" where
  "SeekableBuffer_Seek sb offset whence =
     (if whence \<noteq> 0 \<and> whence \<noteq> 1 \<and> whence \<noteq> 2
      then Inl (ErrorString ''invalid seek whence'')
      else
        let newPos = (if whence = 0 then offset
                      else if whence = 1 then pos sb + offset
                      else int (length (buf sb)) + offset)
        in if newPos < 0 then Inl (ErrorString ''seek before start of buffer'')
           else
             let currentLen = int (length (buf sb));
                 b = (if newPos > currentLen
                      then buf sb @ replicate (nat (newPos - currentLen)) 0
                      else buf sb)
             in Inr (newPos, \<lparr>buf = b, pos = newPos\<rparr>))"

text \<open>
  \<open>Read\<close> with a destination of \<open>n\<close> bytes: the bytes copied, the error (if any) and
  the buffer after the call.
\<close>

definition SeekableBuffer_Read ::
  "SeekableBuffer \<Rightarrow> nat \<Rightarrow> byte list \<times> error option \<times> SeekableBuffer" where
  "SeekableBuffer_Read sb n =
     (if pos sb \<ge> int (length (buf sb)) then ([], Some EOF, sb)
      else
        let got = take n (drop (nat (pos sb)) (buf sb));
            sb' = sb\<lparr>pos := pos sb + int (length got)\<rparr>
        in if length got < n then (got, Some EOF, sb') else (got, None, sb'))"


section \<open>The data model\<close>

text \<open>
  \<open>StreamType\<close> is a Go string type with the two named values below; any other
  string (in particular the zero value \<open>""\<close>) is neither video nor audio.
\<close>

type_synonym StreamType = string

definition StreamTypeVideo :: StreamType where "StreamTypeVideo = ''video''"
definition StreamTypeAudio :: StreamType where "StreamTypeAudio = ''audio''"

text \<open>
  \<open>FPS\<close> is a \<open>float64\<close> in the source.  A finite \<open>float64\<close> value is
  carried as the real number it denotes, and comparisons with 0 are those of the reals.
  What \<open>float64\<close> arithmetic rounds to, and what a conversion to an integer type
  yields outside that type's range, is not something this embedding defines: the four
  floating-point operations the code uses are parameters of the model,
  \<^item> \<open>f64_mul x y\<close> for the product \<open>x * y\<close>,
  \<^item> \<open>f64_div x y\<close> for the quotient \<open>x / y\<close>,
  \<^item> \<open>f64_to_uint32 x\<close> for the conversion \<open>uint32(x)\<close>,
  \<^item> \<open>f64_to_int64 x\<close> for the conversion to \<open>int64\<close> (\<open>time.Duration(x)\<close>),

  and every function that reaches one of them takes the operations \<open>fl\<close> as its first
  argument.
\<close>

record float64_ops =
  f64_mul :: "real \<Rightarrow> real \<Rightarrow> real"
  f64_div :: "real \<Rightarrow> real \<Rightarrow> real"
  f64_to_uint32 :: "real \<Rightarrow> uint32"
  f64_to_int64 :: "real \<Rightarrow> int64"

text \<open>
  What IEEE 754 and the Go specification guarantee of them, and all the theorems below
  use: a product or quotient that is a whole number of magnitude below \<open>2 ^ 53\<close> is
  exact, and the conversion of a non-negative value inside the target range truncates.
\<close>

definition f64_exact :: "float64_ops \<Rightarrow> bool" where
  "f64_exact fl \<longleftrightarrow>
     (\<forall>x y. x * y \<in> \<int> \<and> \<bar>x * y\<bar> < 2 ^ 53 \<longrightarrow> f64_mul fl x y = x * y)
     \<and> (\<forall>x y. y \<noteq> 0 \<and> x / y \<in> \<int> \<and> \<bar>x / y\<bar> < 2 ^ 53 \<longrightarrow> f64_div fl x y = x / y)
     \<and> (\<forall>x. 0 \<le> x \<and> x < 2 ^ 32 \<longrightarrow> f64_to_uint32 fl x = word_of_int \<lfloor>x\<rfloor>)
     \<and> (\<forall>x. 0 \<le> x \<and> x < 2 ^ 63 \<longrightarrow> f64_to_int64 fl x = word_of_int \<lfloor>x\<rfloor>)"

text \<open>
  The operations without rounding.  They are exact in the sense above, and stand for
  \<open>float64\<close> in the worked inputs, whose values are whole numbers.
\<close>

definition exact_float64 :: float64_ops where
  "exact_float64 =
     \<lparr>f64_mul = (\<lambda>x y. x * y), f64_div = (\<lambda>x y. x / y),
      f64_to_uint32 = (\<lambda>x. word_of_int \<lfloor>x\<rfloor>),
      f64_to_int64 = (\<lambda>x. word_of_int \<lfloor>x\<rfloor>)\<rparr>"

record Codec =
  Name :: string
  FourCC :: fourcc
  Type :: StreamType
  Width :: int
  Height :: int
  FPS :: real
  Channels :: int
  SampleRate :: int
  BitDepth :: int

record Packet =
  StreamIndex :: int
  Packet_Codec :: StreamType
  Data :: "byte list"
  PTS :: int
  DTS :: int
  Duration :: int
  Size :: int
  Position :: int
  Flags :: string
  PTSTime :: int64
  DTSTime :: int64
  DurationTime :: int64

record Stream =
  Index :: int
  Stream_Type :: StreamType
  Stream_Codec :: Codec
  Stream_Duration :: int64
  PacketCount :: int

record FileInfo =
  Filename :: string
  FileInfo_Duration :: int64
  FileSize :: int
  Streams :: "Stream list"
  VideoStreams :: int
  AudioStreams :: int

text \<open>The zero values of the structs (\<open>var stream Stream\<close>, \<open>var fileInfo FileInfo\<close>).\<close>

definition zero_Codec :: Codec where
  "zero_Codec = \<lparr>Name = [], FourCC = (0, 0, 0, 0), Type = [], Width = 0, Height = 0,
                  FPS = 0, Channels = 0, SampleRate = 0, BitDepth = 0\<rparr>"

definition zero_Stream :: Stream where
  "zero_Stream = \<lparr>Index = 0, Stream_Type = [], Stream_Codec = zero_Codec,
                   Stream_Duration = 0, PacketCount = 0\<rparr>"

definition zero_FileInfo :: FileInfo where
  "zero_FileInfo = \<lparr>Filename = [], FileInfo_Duration = 0, FileSize = 0, Streams = [],
                     VideoStreams = 0, AudioStreams = 0\<rparr>"

subsection \<open>format.go: the binary structures\<close>

record ChunkHeader =
  ch_ID :: fourcc
  ch_Size :: uint32

record AVIMainHeader =
  avih_MicroSecPerFrame :: uint32
  avih_MaxBytesPerSec :: uint32
  avih_PaddingGranularity :: uint32
  avih_Flags :: uint32
  avih_TotalFrames :: uint32
  avih_InitialFrames :: uint32
  avih_Streams :: uint32
  avih_SuggestedBufferSize :: uint32
  avih_Width :: uint32
  avih_Height :: uint32
  avih_Reserved :: "uint32 \<times> uint32 \<times> uint32 \<times> uint32"

record AVIStreamHeader =
  strh_Type :: fourcc
  strh_Handler :: fourcc
  strh_Flags :: uint32
  strh_Priority :: uint16
  strh_Language :: uint16
  strh_InitialFrames :: uint32
  strh_Scale :: uint32
  strh_Rate :: uint32
  strh_Start :: uint32
  strh_Length :: uint32
  strh_SuggestedBufferSize :: uint32
  strh_Quality :: uint32
  strh_SampleSize :: uint32
  strh_Frame_Left :: uint16
  strh_Frame_Top :: uint16
  strh_Frame_Right :: uint16
  strh_Frame_Bottom :: uint16

text \<open>\<open>Width\<close>, \<open>Height\<close> and the two resolutions are \<open>int32\<close>: read with \<open>sint\<close>.\<close>

record BitmapInfoHeader =
  bih_Size :: uint32
  bih_Width :: uint32
  bih_Height :: uint32
  bih_Planes :: uint16
  bih_BitCount :: uint16
  bih_Compression :: fourcc
  bih_SizeImage :: uint32
  bih_XPelsPerMeter :: uint32
  bih_YPelsPerMeter :: uint32
  bih_ClrUsed :: uint32
  bih_ClrImportant :: uint32

record WaveFormatEx =
  wfx_FormatTag :: uint16
  wfx_Channels :: uint16
  wfx_SamplesPerSec :: uint32
  wfx_AvgBytesPerSec :: uint32
  wfx_BlockAlign :: uint16
  wfx_BitsPerSample :: uint16
  wfx_Size :: uint16

record IndexEntry =
  idx_ChunkID :: fourcc
  idx_Flags :: uint32
  idx_Offset :: uint32
  idx_Size :: uint32

text \<open>
  \<open>binary.Write(w, binary.LittleEndian, &v)\<close> encodes the fields of \<open>v\<close> in
  declaration order, without padding, and hands the bytes to \<open>w.Write\<close> in one call;
  \<open>binary.Read\<close> reads that many bytes and decodes them.  The encoders and decoders of
  the structures follow.
\<close>

definition RIFFHeader_bytes :: "fourcc \<Rightarrow> uint32 \<Rightarrow> fourcc \<Rightarrow> byte list" where
  "RIFFHeader_bytes signature fileSize typ =
     fourcc_bytes signature @ le32 fileSize @ fourcc_bytes typ"

definition ChunkHeader_bytes :: "ChunkHeader \<Rightarrow> byte list" where
  "ChunkHeader_bytes h = fourcc_bytes (ch_ID h) @ le32 (ch_Size h)"

definition LISTHeader_bytes :: "ChunkHeader \<Rightarrow> fourcc \<Rightarrow> byte list" where
  "LISTHeader_bytes h typ = ChunkHeader_bytes h @ fourcc_bytes typ"

definition AVIMainHeader_bytes :: "AVIMainHeader \<Rightarrow> byte list" where
  "AVIMainHeader_bytes h =
     le32 (avih_MicroSecPerFrame h) @ le32 (avih_MaxBytesPerSec h)
     @ le32 (avih_PaddingGranularity h) @ le32 (avih_Flags h)
     @ le32 (avih_TotalFrames h) @ le32 (avih_InitialFrames h)
     @ le32 (avih_Streams h) @ le32 (avih_SuggestedBufferSize h)
     @ le32 (avih_Width h) @ le32 (avih_Height h)
     @ (case avih_Reserved h of (r0, r1, r2, r3) \<Rightarrow> le32 r0 @ le32 r1 @ le32 r2 @ le32 r3)"

definition AVIStreamHeader_bytes :: "AVIStreamHeader \<Rightarrow> byte list" where
  "AVIStreamHeader_bytes h =
     fourcc_bytes (strh_Type h) @ fourcc_bytes (strh_Handler h)
     @ le32 (strh_Flags h) @ le16 (strh_Priority h) @ le16 (strh_Language h)
     @ le32 (strh_InitialFrames h) @ le32 (strh_Scale h) @ le32 (strh_Rate h)
     @ le32 (strh_Start h) @ le32 (strh_Length h) @ le32 (strh_SuggestedBufferSize h)
     @ le32 (strh_Quality h) @ le32 (strh_SampleSize h)
     @ le16 (strh_Frame_Left h) @ le16 (strh_Frame_Top h)
     @ le16 (strh_Frame_Right h) @ le16 (strh_Frame_Bottom h)"

definition BitmapInfoHeader_bytes :: "BitmapInfoHeader \<Rightarrow> byte list" where
  "BitmapInfoHeader_bytes h =
     le32 (bih_Size h) @ le32 (bih_Width h) @ le32 (bih_Height h)
     @ le16 (bih_Planes h) @ le16 (bih_BitCount h) @ fourcc_bytes (bih_Compression h)
     @ le32 (bih_SizeImage h) @ le32 (bih_XPelsPerMeter h) @ le32 (bih_YPelsPerMeter h)
     @ le32 (bih_ClrUsed h) @ le32 (bih_ClrImportant h)"

definition WaveFormatEx_bytes :: "WaveFormatEx \<Rightarrow> byte list" where
  "WaveFormatEx_bytes h =
     le16 (wfx_FormatTag h) @ le16 (wfx_Channels h) @ le32 (wfx_SamplesPerSec h)
     @ le32 (wfx_AvgBytesPerSec h) @ le16 (wfx_BlockAlign h) @ le16 (wfx_BitsPerSample h)
     @ le16 (wfx_Size h)"

definition IndexEntry_bytes :: "IndexEntry \<Rightarrow> byte list" where
  "IndexEntry_bytes e =
     fourcc_bytes (idx_ChunkID e) @ le32 (idx_Flags e) @ le32 (idx_Offset e)
     @ le32 (idx_Size e)"

text \<open>The sizes \<open>binary.Read\<close> asks for: the encoded size of each structure.\<close>

definition sizeof_RIFFHeader :: nat where "sizeof_RIFFHeader = 12"
definition sizeof_ChunkHeader :: nat where "sizeof_ChunkHeader = 8"
definition sizeof_AVIMainHeader :: nat where "sizeof_AVIMainHeader = 56"
definition sizeof_AVIStreamHeader :: nat where "sizeof_AVIStreamHeader = 56"
definition sizeof_BitmapInfoHeader :: nat where "sizeof_BitmapInfoHeader = 40"
definition sizeof_WaveFormatEx :: nat where "sizeof_WaveFormatEx = 18"
definition sizeof_IndexEntry :: nat where "sizeof_IndexEntry = 16"

definition ChunkHeader_of_bytes :: "byte list \<Rightarrow> ChunkHeader" where
  "ChunkHeader_of_bytes bs = \<lparr>ch_ID = rd_fourcc bs, ch_Size = rd32 (drop 4 bs)\<rparr>"

definition AVIMainHeader_of_bytes :: "byte list \<Rightarrow> AVIMainHeader" where
  "AVIMainHeader_of_bytes bs =
     \<lparr>avih_MicroSecPerFrame = rd32 bs,
      avih_MaxBytesPerSec = rd32 (drop 4 bs),
      avih_PaddingGranularity = rd32 (drop 8 bs),
      avih_Flags = rd32 (drop 12 bs),
      avih_TotalFrames = rd32 (drop 16 bs),
      avih_InitialFrames = rd32 (drop 20 bs),
      avih_Streams = rd32 (drop 24 bs),
      avih_SuggestedBufferSize = rd32 (drop 28 bs),
      avih_Width = rd32 (drop 32 bs),
      avih_Height = rd32 (drop 36 bs),
      avih_Reserved = (rd32 (drop 40 bs), rd32 (drop 44 bs),
                       rd32 (drop 48 bs), rd32 (drop 52 bs))\<rparr>"

definition AVIStreamHeader_of_bytes :: "byte list \<Rightarrow> AVIStreamHeader" where
  "AVIStreamHeader_of_bytes bs =
     \<lparr>strh_Type = rd_fourcc bs,
      strh_Handler = rd_fourcc (drop 4 bs),
      strh_Flags = rd32 (drop 8 bs),
      strh_Priority = rd16 (drop 12 bs),
      strh_Language = rd16 (drop 14 bs),
      strh_InitialFrames = rd32 (drop 16 bs),
      strh_Scale = rd32 (drop 20 bs),
      strh_Rate = rd32 (drop 24 bs),
      strh_Start = rd32 (drop 28 bs),
      strh_Length = rd32 (drop 32 bs),
      strh_SuggestedBufferSize = rd32 (drop 36 bs),
      strh_Quality = rd32 (drop 40 bs),
      strh_SampleSize = rd32 (drop 44 bs),
      strh_Frame_Left = rd16 (drop 48 bs),
      strh_Frame_Top = rd16 (drop 50 bs),
      strh_Frame_Right = rd16 (drop 52 bs),
      strh_Frame_Bottom = rd16 (drop 54 bs)\<rparr>"

definition BitmapInfoHeader_of_bytes :: "byte list \<Rightarrow> BitmapInfoHeader" where
  "BitmapInfoHeader_of_bytes bs =
     \<lparr>bih_Size = rd32 bs,
      bih_Width = rd32 (drop 4 bs),
      bih_Height = rd32 (drop 8 bs),
      bih_Planes = rd16 (drop 12 bs),
      bih_BitCount = rd16 (drop 14 bs),
      bih_Compression = rd_fourcc (drop 16 bs),
      bih_SizeImage = rd32 (drop 20 bs),
      bih_XPelsPerMeter = rd32 (drop 24 bs),
      bih_YPelsPerMeter = rd32 (drop 28 bs),
      bih_ClrUsed = rd32 (drop 32 bs),
      bih_ClrImportant = rd32 (drop 36 bs)\<rparr>"

definition WaveFormatEx_of_bytes :: "byte list \<Rightarrow> WaveFormatEx" where
  "WaveFormatEx_of_bytes bs =
     \<lparr>wfx_FormatTag = rd16 bs,
      wfx_Channels = rd16 (drop 2 bs),
      wfx_SamplesPerSec = rd32 (drop 4 bs),
      wfx_AvgBytesPerSec = rd32 (drop 8 bs),
      wfx_BlockAlign = rd16 (drop 12 bs),
      wfx_BitsPerSample = rd16 (drop 14 bs),
      wfx_Size = rd16 (drop 16 bs)\<rparr>"

definition IndexEntry_of_bytes :: "byte list \<Rightarrow> IndexEntry" where
  "IndexEntry_of_bytes bs =
     \<lparr>idx_ChunkID = rd_fourcc bs,
      idx_Flags = rd32 (drop 4 bs),
      idx_Offset = rd32 (drop 8 bs),
      idx_Size = rd32 (drop 12 bs)\<rparr>"


section \<open>Errors in sequence\<close>

text \<open>
  \<open>bind_err\<close> is Go's \<open>if err != nil { return err }\<close>; \<open>wrapErr op\<close> is
  \<open>return &AVIError{Op: op, Err: err}\<close>, which a panic passes through unwrapped.
\<close>

definition bind_err :: "error + 'a \<Rightarrow> ('a \<Rightarrow> error + 'b) \<Rightarrow> error + 'b" where
  "bind_err m f = (case m of Inl e \<Rightarrow> Inl e | Inr x \<Rightarrow> f x)"

fun wrapErr :: "string \<Rightarrow> error + 'a \<Rightarrow> error + 'a" where
  "wrapErr opn (Inr x) = Inr x"
| "wrapErr opn (Inl (Panic s)) = Inl (Panic s)"
| "wrapErr opn (Inl e) = Inl (AVIError opn e)"

text \<open>A \<open>for ... range xs\<close> loop whose body may return an error.\<close>

fun for_range :: "('a \<Rightarrow> 's \<Rightarrow> error + 's) \<Rightarrow> 'a list \<Rightarrow> 's \<Rightarrow> error + 's" where
  "for_range body [] s = Inr s"
| "for_range body (x # xs) s = bind_err (body x s) (for_range body xs)"

text \<open>\<open>w.streams[i]\<close> for an \<open>int\<close> index: a run-time panic outside the slice.\<close>

definition stream_at :: "Stream list \<Rightarrow> int \<Rightarrow> error + Stream" where
  "stream_at ss i =
     (if 0 \<le> i \<and> i < int (length ss) then Inr (ss ! nat i)
      else Inl (Panic ''index out of range''))"

section \<open>muxer.go: the serializer\<close>

text \<open>
  The sink \<open>w.w\<close> is an \<open>io.WriteSeeker\<close>; it is modelled by the repository's own
  implementation, the seekable memory buffer (\<open>None\<close> is the nil interface of a Writer
  on which \<open>Create\<close> has not been called).
\<close>

record Writer =
  Writer_w :: "SeekableBuffer option"
  Writer_filename :: string
  Writer_streams :: "Stream list"
  Writer_packets :: "Packet list"

definition NewMuxer :: Writer where
  "NewMuxer = \<lparr>Writer_w = None, Writer_filename = [], Writer_streams = [],
                Writer_packets = []\<rparr>"

definition Create :: "Writer \<Rightarrow> SeekableBuffer \<Rightarrow> Writer" where
  "Create wr writer =
     wr\<lparr>Writer_w := Some writer, Writer_filename := [], Writer_streams := [],
        Writer_packets := []\<rparr>"

definition AddStream :: "Writer \<Rightarrow> Codec \<Rightarrow> error + (int \<times> Writer)" where
  "AddStream wr codec =
     (if Writer_w wr = None
      then Inl (AVIError ''add stream'' (ErrorString ''file not created''))
      else
        let stream = \<lparr>Index = int (length (Writer_streams wr)), Stream_Type = Type codec,
                       Stream_Codec = codec, Stream_Duration = 0, PacketCount = 0\<rparr>
        in Inr (Index stream, wr\<lparr>Writer_streams := Writer_streams wr @ [stream]\<rparr>))"

definition WritePacket :: "Writer \<Rightarrow> Packet \<Rightarrow> error + Writer" where
  "WritePacket wr packet =
     (if Writer_w wr = None
      then Inl (AVIError ''write packet'' (ErrorString ''file not created''))
      else if StreamIndex packet \<ge> int (length (Writer_streams wr))
      then Inl (AVIError ''write packet'' (ErrorString ''invalid stream index''))
      else Inr (wr\<lparr>Writer_packets := Writer_packets wr @ [packet]\<rparr>))"

text \<open>One \<open>Write\<close> call on the sink, as \<open>binary.Write\<close> and \<open>w.w.Write\<close> make it.\<close>

definition sink_Write :: "Writer \<Rightarrow> byte list \<Rightarrow> error + Writer" where
  "sink_Write wr bs =
     (case Writer_w wr of
        None \<Rightarrow> Inl (Panic ''nil pointer dereference'')
      | Some sb \<Rightarrow>
          (case SeekableBuffer_Write sb bs of
             Inl e \<Rightarrow> Inl e
           | Inr (n, sb') \<Rightarrow> Inr (wr\<lparr>Writer_w := Some sb'\<rparr>)))"

subsection \<open>Size computation\<close>

definition calculateSTRLSize :: "Writer \<Rightarrow> nat \<Rightarrow> uint32" where
  "calculateSTRLSize wr streamIndex =
     (let sz = 4 + (8 + 56);
          stream = Writer_streams wr ! streamIndex
      in if Stream_Type stream = StreamTypeVideo then sz + (8 + 40)
         else if Stream_Type stream = StreamTypeAudio then sz + (8 + 16)
         else sz)"

definition calculateHDRLSize :: "Writer \<Rightarrow> uint32" where
  "calculateHDRLSize wr =
     fold (\<lambda>i sz. sz + (calculateSTRLSize wr i + 8))
          [0 ..< length (Writer_streams wr)] (4 + (8 + 56))"

definition calculateMOVISize :: "Writer \<Rightarrow> uint32" where
  "calculateMOVISize wr =
     fold (\<lambda>packet sz. sz + (8 + AlignSize (word_of_nat (length (Data packet)))))
          (Writer_packets wr) 4"

definition calculateIDX1Size :: "Writer \<Rightarrow> uint32" where
  "calculateIDX1Size wr = word_of_nat (length (Writer_packets wr) * 16)"

subsection \<open>Emission\<close>

text \<open>
  \<open>writeAVIHChunk\<close>: the first video stream gives the dimensions and the frame
  interval; the frame count indexes \<open>w.streams\<close> with every packet's stream index.
\<close>

fun countFrames :: "Stream list \<Rightarrow> Packet list \<Rightarrow> uint32 \<Rightarrow> error + uint32" where
  "countFrames ss [] totalFrames = Inr totalFrames"
| "countFrames ss (packet # ps) totalFrames =
     bind_err (stream_at ss (StreamIndex packet)) (\<lambda>stream.
       countFrames ss ps
         (if Stream_Type stream = StreamTypeVideo then totalFrames + 1 else totalFrames))"

definition avih_header :: "float64_ops \<Rightarrow> Writer \<Rightarrow> uint32 \<Rightarrow> AVIMainHeader" where
  "avih_header fl wr totalFrames =
     (let (width, height, microSecPerFrame) =
            (case find (\<lambda>stream. Stream_Type stream = StreamTypeVideo) (Writer_streams wr) of
               None \<Rightarrow> (0, 0, 0)
             | Some stream \<Rightarrow>
                 (word_of_int (Width (Stream_Codec stream)),
                  word_of_int (Height (Stream_Codec stream)),
                  if FPS (Stream_Codec stream) > 0
                  then f64_to_uint32 fl (f64_div fl 1000000 (FPS (Stream_Codec stream)))
                  else 0))
      in \<lparr>avih_MicroSecPerFrame = microSecPerFrame,
          avih_MaxBytesPerSec = 0,
          avih_PaddingGranularity = 0,
          avih_Flags = 0x810,
          avih_TotalFrames = totalFrames,
          avih_InitialFrames = 0,
          avih_Streams = word_of_nat (length (Writer_streams wr)),
          avih_SuggestedBufferSize = 0,
          avih_Width = width,
          avih_Height = height,
          avih_Reserved = (0, 0, 0, 0)\<rparr>)"

definition writeAVIHChunk :: "float64_ops \<Rightarrow> Writer \<Rightarrow> error + Writer" where
  "writeAVIHChunk fl wr =
     bind_err (countFrames (Writer_streams wr) (Writer_packets wr) 0) (\<lambda>totalFrames.
       let header = avih_header fl wr totalFrames;
           chunkHeader = \<lparr>ch_ID = AVIHChunk, ch_Size = 56\<rparr>
       in bind_err (wrapErr ''write avih header''
                      (sink_Write wr (ChunkHeader_bytes chunkHeader))) (\<lambda>wr.
            wrapErr ''write avih'' (sink_Write wr (AVIMainHeader_bytes header))))"

text \<open>
  \<open>writeSTRHChunk\<close>: the header value (\<open>strh_header\<close>), then the two writes.
\<close>

definition strh_header :: "float64_ops \<Rightarrow> Writer \<Rightarrow> nat \<Rightarrow> AVIStreamHeader" where
  "strh_header fl wr streamIndex =
     (let stream = Writer_streams wr ! streamIndex;
          streamType = (if Stream_Type stream = StreamTypeVideo then STREAMTypeVideo
                        else if Stream_Type stream = StreamTypeAudio then STREAMTypeAudio
                        else (0, 0, 0, 0));
          (scale, rate) =
            (if Stream_Type stream = StreamTypeVideo \<and> FPS (Stream_Codec stream) > 0
             then (1000, f64_to_uint32 fl (f64_mul fl (FPS (Stream_Codec stream)) 1000))
             else if Stream_Type stream = StreamTypeAudio
                     \<and> SampleRate (Stream_Codec stream) > 0
             then (1, word_of_int (SampleRate (Stream_Codec stream)))
             else (1, 1));
          len = word_of_nat (length (filter (\<lambda>packet. StreamIndex packet = int streamIndex)
                                            (Writer_packets wr)));
          isVideo = (Stream_Type stream = StreamTypeVideo)
      in \<lparr>strh_Type = streamType,
          strh_Handler = FourCC (Stream_Codec stream),
          strh_Flags = 0,
          strh_Priority = 0,
          strh_Language = 0,
          strh_InitialFrames = 0,
          strh_Scale = scale,
          strh_Rate = rate,
          strh_Start = 0,
          strh_Length = len,
          strh_SuggestedBufferSize = 0,
          strh_Quality = 0xFFFFFFFF,
          strh_SampleSize = 0,
          strh_Frame_Left = 0,
          strh_Frame_Top = 0,
          strh_Frame_Right =
            (if isVideo then word_of_int (Width (Stream_Codec stream)) else 0),
          strh_Frame_Bottom =
            (if isVideo then word_of_int (Height (Stream_Codec stream)) else 0)\<rparr>)"

definition writeSTRHChunk :: "float64_ops \<Rightarrow> Writer \<Rightarrow> nat \<Rightarrow> error + Writer" where
  "writeSTRHChunk fl wr streamIndex =
     (let header = strh_header fl wr streamIndex;
          chunkHeader = \<lparr>ch_ID = STRHChunk, ch_Size = 56\<rparr>
      in bind_err (wrapErr ''write strh header''
                     (sink_Write wr (ChunkHeader_bytes chunkHeader))) (\<lambda>wr.
           wrapErr ''write strh'' (sink_Write wr (AVIStreamHeader_bytes header))))"

definition video_format :: "Stream \<Rightarrow> BitmapInfoHeader" where
  "video_format stream =
     \<lparr>bih_Size = 40,
      bih_Width = word_of_int (Width (Stream_Codec stream)),
      bih_Height = word_of_int (Height (Stream_Codec stream)),
      bih_Planes = 1,
      bih_BitCount = 24,
      bih_Compression = FourCC (Stream_Codec stream),
      bih_SizeImage = 0,
      bih_XPelsPerMeter = 0,
      bih_YPelsPerMeter = 0,
      bih_ClrUsed = 0,
      bih_ClrImportant = 0\<rparr>"

definition writeVideoFormat :: "Writer \<Rightarrow> nat \<Rightarrow> error + Writer" where
  "writeVideoFormat wr streamIndex =
     (let stream = Writer_streams wr ! streamIndex;
          bih = video_format stream;
          chunkHeader = \<lparr>ch_ID = STRFChunk, ch_Size = 40\<rparr>
      in bind_err (wrapErr ''write strf header''
                     (sink_Write wr (ChunkHeader_bytes chunkHeader))) (\<lambda>wr.
           wrapErr ''write bitmap info'' (sink_Write wr (BitmapInfoHeader_bytes bih))))"

text \<open>
  \<open>writeAudioFormat\<close>: the products are on Go's 64-bit \<open>int\<close> (wrapping), the
  division by 8 truncates towards zero.
\<close>

definition wrap64 :: "int \<Rightarrow> int" where
  "wrap64 k = signed_take_bit 63 k"

definition audio_format :: "Stream \<Rightarrow> WaveFormatEx" where
  "audio_format stream =
     (let c = Stream_Codec stream
      in \<lparr>wfx_FormatTag = 1,
          wfx_Channels = word_of_int (Channels c),
          wfx_SamplesPerSec = word_of_int (SampleRate c),
          wfx_AvgBytesPerSec =
            word_of_int (wrap64 (wrap64 (SampleRate c * Channels c) * BitDepth c) sdiv 8),
          wfx_BlockAlign = word_of_int (wrap64 (Channels c * BitDepth c) sdiv 8),
          wfx_BitsPerSample = word_of_int (BitDepth c),
          wfx_Size = 0\<rparr>)"

definition writeAudioFormat :: "Writer \<Rightarrow> nat \<Rightarrow> error + Writer" where
  "writeAudioFormat wr streamIndex =
     (let stream = Writer_streams wr ! streamIndex;
          wfx = audio_format stream;
          chunkHeader = \<lparr>ch_ID = STRFChunk, ch_Size = 16\<rparr>
      in bind_err (wrapErr ''write strf header''
                     (sink_Write wr (ChunkHeader_bytes chunkHeader))) (\<lambda>wr.
           wrapErr ''write wave format'' (sink_Write wr (WaveFormatEx_bytes wfx))))"

definition writeSTRFChunk :: "Writer \<Rightarrow> nat \<Rightarrow> error + Writer" where
  "writeSTRFChunk wr streamIndex =
     (let stream = Writer_streams wr ! streamIndex
      in if Stream_Type stream = StreamTypeVideo then writeVideoFormat wr streamIndex
         else if Stream_Type stream = StreamTypeAudio then writeAudioFormat wr streamIndex
         else Inr wr)"

definition writeSTRLList :: "float64_ops \<Rightarrow> nat \<Rightarrow> Writer \<Rightarrow> error + Writer" where
  "writeSTRLList fl streamIndex wr =
     (let strlSize = calculateSTRLSize wr streamIndex;
          listHeader = LISTHeader_bytes \<lparr>ch_ID = LISTSignature, ch_Size = strlSize\<rparr> STRLList
      in bind_err (wrapErr ''write strl list'' (sink_Write wr listHeader)) (\<lambda>wr.
         bind_err (writeSTRHChunk fl wr streamIndex) (\<lambda>wr.
           writeSTRFChunk wr streamIndex)))"

definition writeHDRLList :: "float64_ops \<Rightarrow> Writer \<Rightarrow> error + Writer" where
  "writeHDRLList fl wr =
     (let hdrlSize = calculateHDRLSize wr;
          listHeader = LISTHeader_bytes \<lparr>ch_ID = LISTSignature, ch_Size = hdrlSize\<rparr> HDRLList
      in bind_err (wrapErr ''write hdrl list'' (sink_Write wr listHeader)) (\<lambda>wr.
         bind_err (writeAVIHChunk fl wr) (\<lambda>wr.
           for_range (writeSTRLList fl) [0 ..< length (Writer_streams wr)] wr)))"

text \<open>
  The payload subtype both \<open>writePacketData\<close> and \<open>writeIDX1Chunk\<close> choose: \<open>"dc"\<close>
  for video, \<open>"db"\<close> for a video packet flagged \<open>"K__"\<close>, \<open>"wb"\<close> for audio, and the
  empty string for a stream that is neither.
\<close>

definition packet_twoCC :: "Stream \<Rightarrow> Packet \<Rightarrow> byte list" where
  "packet_twoCC stream packet =
     (if Stream_Type stream = StreamTypeVideo
      then (if Flags packet = ''K__'' then twoCC_db else twoCC_dc)
      else if Stream_Type stream = StreamTypeAudio then twoCC_wb
      else [])"

definition writePacketData :: "Packet \<Rightarrow> Writer \<Rightarrow> error + Writer" where
  "writePacketData packet wr =
     bind_err (stream_at (Writer_streams wr) (StreamIndex packet)) (\<lambda>stream.
     bind_err (MakeChunkID (StreamIndex packet) (packet_twoCC stream packet)) (\<lambda>chunkID.
       let chunkHeader = \<lparr>ch_ID = chunkID, ch_Size = word_of_nat (length (Data packet))\<rparr>
       in bind_err (wrapErr ''write packet header''
                      (sink_Write wr (ChunkHeader_bytes chunkHeader))) (\<lambda>wr.
          bind_err (wrapErr ''write packet data'' (sink_Write wr (Data packet))) (\<lambda>wr.
            if length (Data packet) mod 2 = 1
            then wrapErr ''write padding'' (sink_Write wr [0])
            else Inr wr))))"

definition writeMOVIList :: "Writer \<Rightarrow> error + Writer" where
  "writeMOVIList wr =
     (let moviSize = calculateMOVISize wr;
          listHeader = LISTHeader_bytes \<lparr>ch_ID = LISTSignature, ch_Size = moviSize\<rparr> MOVIList
      in bind_err (wrapErr ''write movi list'' (sink_Write wr listHeader)) (\<lambda>wr.
           for_range writePacketData (Writer_packets wr) wr))"

text \<open>The index loop carries the writer and \<open>currentOffset\<close>.\<close>

definition writeIndexEntry :: "Packet \<Rightarrow> Writer \<times> uint32 \<Rightarrow> error + Writer \<times> uint32" where
  "writeIndexEntry packet st =
     (case st of (wr, currentOffset) \<Rightarrow>
        bind_err (stream_at (Writer_streams wr) (StreamIndex packet)) (\<lambda>stream.
        bind_err (MakeChunkID (StreamIndex packet) (packet_twoCC stream packet)) (\<lambda>chunkID.
          let flags = (if Flags packet = ''K__'' then 0x10 else 0);
              entry = \<lparr>idx_ChunkID = chunkID, idx_Flags = flags,
                        idx_Offset = currentOffset,
                        idx_Size = word_of_nat (length (Data packet))\<rparr>
          in bind_err (wrapErr ''write index entry''
                         (sink_Write wr (IndexEntry_bytes entry))) (\<lambda>wr.
               Inr (wr, currentOffset
                          + (8 + AlignSize (word_of_nat (length (Data packet)))))))))"

definition writeIDX1Chunk :: "Writer \<Rightarrow> error + Writer" where
  "writeIDX1Chunk wr =
     (let indexSize = length (Writer_packets wr) * 16;
          chunkHeader = \<lparr>ch_ID = IDX1Chunk, ch_Size = word_of_nat indexSize\<rparr>
      in bind_err (wrapErr ''write idx1 header''
                     (sink_Write wr (ChunkHeader_bytes chunkHeader))) (\<lambda>wr.
         bind_err (for_range writeIndexEntry (Writer_packets wr) (wr, 4)) (\<lambda>(wr, currentOffset).
           Inr wr)))"

definition writeAVIFile :: "float64_ops \<Rightarrow> Writer \<Rightarrow> error + Writer" where
  "writeAVIFile fl wr =
     (let moviSize = calculateMOVISize wr;
          hdrlSize = calculateHDRLSize wr;
          idx1Size = calculateIDX1Size wr;
          totalSize = 4 + hdrlSize + 8 + moviSize + 8 + idx1Size
      in bind_err (wrapErr ''write riff header''
                     (sink_Write wr (RIFFHeader_bytes RIFFSignature totalSize AVISignature)))
           (\<lambda>wr.
         bind_err (writeHDRLList fl wr) (\<lambda>wr.
         bind_err (writeMOVIList wr) (\<lambda>wr.
           writeIDX1Chunk wr))))"

definition Finalize :: "float64_ops \<Rightarrow> Writer \<Rightarrow> error + Writer" where
  "Finalize fl wr =
     (if Writer_w wr = None
      then Inl (AVIError ''finalize'' (ErrorString ''file not created''))
      else writeAVIFile fl wr)"


section \<open>demuxer.go: the walker\<close>

text \<open>
  The source \<open>r.r\<close> is an \<open>io.ReadSeeker\<close>.  It is modelled as Go's
  \<open>bytes.Reader\<close> (the in-memory source the tests open; a regular \<open>os.File\<close> behaves
  the same): the bytes and a cursor.  Seeking past the end is legal and reads there
  return \<open>io.EOF\<close>; seeking to a negative position fails and leaves the cursor alone.
\<close>

record ReadSeeker =
  rs_data :: "byte list"
  rs_pos :: int

definition NewReader :: "byte list \<Rightarrow> ReadSeeker" where
  "NewReader b = \<lparr>rs_data = b, rs_pos = 0\<rparr>"

definition ReadSeeker_Seek :: "ReadSeeker \<Rightarrow> int \<Rightarrow> int \<Rightarrow> error + (int \<times> ReadSeeker)" where
  "ReadSeeker_Seek s offset whence =
     (if whence \<noteq> 0 \<and> whence \<noteq> 1 \<and> whence \<noteq> 2
      then Inl (ErrorString ''bytes.Reader.Seek: invalid whence'')
      else
        let abs = (if whence = 0 then offset
                   else if whence = 1 then rs_pos s + offset
                   else int (length (rs_data s)) + offset)
        in if abs < 0 then Inl (ErrorString ''bytes.Reader.Seek: negative position'')
           else Inr (abs, s\<lparr>rs_pos := abs\<rparr>))"

text \<open>
  \<open>io.ReadFull\<close> on the source, for a destination of \<open>n\<close> bytes: all \<open>n\<close> bytes, or
  \<open>io.EOF\<close> when the cursor is at or past the end, or \<open>io.ErrUnexpectedEOF\<close> after
  consuming the fewer bytes that were left.
\<close>

definition io_ReadFull :: "ReadSeeker \<Rightarrow> nat \<Rightarrow> (error + byte list) \<times> ReadSeeker" where
  "io_ReadFull s n =
     (if n = 0 then (Inr [], s)
      else if rs_pos s \<ge> int (length (rs_data s)) then (Inl EOF, s)
      else
        let avail = drop (nat (rs_pos s)) (rs_data s)
        in if length avail < n
           then (Inl ErrUnexpectedEOF, s\<lparr>rs_pos := int (length (rs_data s))\<rparr>)
           else (Inr (take n avail), s\<lparr>rs_pos := rs_pos s + int n\<rparr>))"

record Reader =
  Reader_r :: "ReadSeeker option"
  Reader_filename :: string
  Reader_fileSize :: int
  Reader_streams :: "Stream list"
  Reader_fileInfo :: "FileInfo option"
  Reader_moviOffset :: int
  Reader_indexEntries :: "IndexEntry list"

definition NewDemuxer :: Reader where
  "NewDemuxer = \<lparr>Reader_r = None, Reader_filename = [], Reader_fileSize = 0,
                  Reader_streams = [], Reader_fileInfo = None, Reader_moviOffset = 0,
                  Reader_indexEntries = []\<rparr>"

text \<open>\<open>r.r.Seek\<close> and \<open>binary.Read(r.r, ...)\<close> on the reader's source.\<close>

definition Reader_Seek :: "Reader \<Rightarrow> int \<Rightarrow> int \<Rightarrow> error + (int \<times> Reader)" where
  "Reader_Seek rd offset whence =
     (case Reader_r rd of
        None \<Rightarrow> Inl (Panic ''nil pointer dereference'')
      | Some s \<Rightarrow>
          (case ReadSeeker_Seek s offset whence of
             Inl e \<Rightarrow> Inl e
           | Inr (p, s') \<Rightarrow> Inr (p, rd\<lparr>Reader_r := Some s'\<rparr>)))"

definition binary_Read :: "Reader \<Rightarrow> nat \<Rightarrow> (error + byte list) \<times> Reader" where
  "binary_Read rd n =
     (case Reader_r rd of
        None \<Rightarrow> (Inl (Panic ''nil pointer dereference''), rd)
      | Some s \<Rightarrow>
          (case io_ReadFull s n of (res, s') \<Rightarrow> (res, rd\<lparr>Reader_r := Some s'\<rparr>)))"

text \<open>
  A read whose error is wrapped and returned, and a relative seek that skips bytes:
  the two steps every chunk handler is made of.
\<close>

definition read_struct :: "string \<Rightarrow> Reader \<Rightarrow> nat \<Rightarrow> error + (byte list \<times> Reader)" where
  "read_struct opn rd n =
     (case binary_Read rd n of
        (Inl e, rd') \<Rightarrow> wrapErr opn (Inl e)
      | (Inr bs, rd') \<Rightarrow> Inr (bs, rd'))"

definition skip_bytes :: "string \<Rightarrow> Reader \<Rightarrow> uint32 \<Rightarrow> error + Reader" where
  "skip_bytes opn rd n =
     (case Reader_Seek rd (uint n) 1 of
        Inl e \<Rightarrow> wrapErr opn (Inl e)
      | Inr (p, rd') \<Rightarrow> Inr rd')"

definition IsValidRIFFSignature :: "fourcc \<Rightarrow> bool" where
  "IsValidRIFFSignature sig = (sig = RIFFSignature)"

definition IsValidAVISignature :: "fourcc \<Rightarrow> bool" where
  "IsValidAVISignature sig = (sig = AVISignature)"

definition IsVideoStream :: "fourcc \<Rightarrow> bool" where
  "IsVideoStream streamType = (streamType = STREAMTypeVideo)"

definition IsAudioStream :: "fourcc \<Rightarrow> bool" where
  "IsAudioStream streamType = (streamType = STREAMTypeAudio)"

text \<open>Signed 64-bit division (Go's \<open>/\<close> on \<open>time.Duration\<close>), for a non-zero divisor.\<close>

definition int64_div :: "int64 \<Rightarrow> int64 \<Rightarrow> int64" where
  "int64_div a b = word_of_int (sint a sdiv sint b)"

subsection \<open>Stream descriptors\<close>

definition cleanName :: "fourcc \<Rightarrow> string" where
  "cleanName handler =
     map (\<lambda>b. char_of (unat b)) (filter (\<lambda>b. 32 \<le> b \<and> b \<le> 126) (fourcc_bytes handler))"

text \<open>
  \<open>parseSTRHChunk\<close>: what the stream header does to the stream record
  (\<open>strh_update\<close>), then the skeleton that reads it and skips the rest of the chunk.
\<close>

definition strh_update :: "float64_ops \<Rightarrow> AVIStreamHeader \<Rightarrow> Stream \<Rightarrow> Stream" where
  "strh_update fl header stream =
     (let stream =
            (if IsVideoStream (strh_Type header)
             then stream\<lparr>Stream_Type := StreamTypeVideo,
                         Stream_Codec := (Stream_Codec stream)\<lparr>Type := StreamTypeVideo\<rparr>\<rparr>
             else if IsAudioStream (strh_Type header)
             then stream\<lparr>Stream_Type := StreamTypeAudio,
                         Stream_Codec := (Stream_Codec stream)\<lparr>Type := StreamTypeAudio\<rparr>\<rparr>
             else stream);
          stream = stream\<lparr>Stream_Codec :=
                            (Stream_Codec stream)\<lparr>FourCC := strh_Handler header,
                                                   Name := cleanName (strh_Handler header)\<rparr>\<rparr>
      in if strh_Rate header > 0 \<and> strh_Scale header > 0
         then
           let stream =
                 (if Stream_Type stream = StreamTypeVideo
                  then stream\<lparr>Stream_Codec :=
                                (Stream_Codec stream)\<lparr>FPS :=
                                   f64_div fl (real (unat (strh_Rate header)))
                                              (real (unat (strh_Scale header)))\<rparr>\<rparr>
                  else stream)
           in if strh_Length header > 0
              then stream\<lparr>Stream_Duration :=
                     int64_div (ucast (strh_Length header) * ucast (strh_Scale header)
                                * 1000000000)
                               (ucast (strh_Rate header))\<rparr>
              else stream
         else stream)"

definition parseSTRHChunk :: "float64_ops \<Rightarrow> Reader \<Rightarrow> uint32 \<Rightarrow> Stream \<Rightarrow> error + (Reader \<times> Stream)" where
  "parseSTRHChunk fl rd sz stream =
     bind_err (read_struct ''read strh'' rd sizeof_AVIStreamHeader) (\<lambda>(bs, rd).
       let stream = strh_update fl (AVIStreamHeader_of_bytes bs) stream
       in if sz > 56
          then bind_err (skip_bytes ''skip strh remainder'' rd (sz - 56)) (\<lambda>rd.
                 Inr (rd, stream))
          else Inr (rd, stream))"

text \<open>
  The two format blocks: what each does to the stream record, then the skeleton.  A
  negative height (bottom-up bitmap) is stored as its absolute value.
\<close>

definition bih_update :: "BitmapInfoHeader \<Rightarrow> Stream \<Rightarrow> Stream" where
  "bih_update bih stream =
     (let height = sint (bih_Height bih)
      in stream\<lparr>Stream_Codec :=
           (Stream_Codec stream)\<lparr>Width := sint (bih_Width bih),
                                  Height := (if height < 0 then - height else height)\<rparr>\<rparr>)"

definition parseVideoFormat :: "Reader \<Rightarrow> uint32 \<Rightarrow> Stream \<Rightarrow> error + (Reader \<times> Stream)" where
  "parseVideoFormat rd sz stream =
     bind_err (read_struct ''read bitmap info'' rd sizeof_BitmapInfoHeader) (\<lambda>(bs, rd).
       let stream = bih_update (BitmapInfoHeader_of_bytes bs) stream
       in if sz > 40
          then bind_err (skip_bytes ''skip bitmap remainder'' rd (sz - 40)) (\<lambda>rd.
                 Inr (rd, stream))
          else Inr (rd, stream))"

definition wfx_update :: "WaveFormatEx \<Rightarrow> Stream \<Rightarrow> Stream" where
  "wfx_update wfx stream =
     stream\<lparr>Stream_Codec :=
       (Stream_Codec stream)\<lparr>Channels := uint (wfx_Channels wfx),
                              SampleRate := uint (wfx_SamplesPerSec wfx),
                              BitDepth := uint (wfx_BitsPerSample wfx)\<rparr>\<rparr>"

definition parseAudioFormat :: "Reader \<Rightarrow> uint32 \<Rightarrow> Stream \<Rightarrow> error + (Reader \<times> Stream)" where
  "parseAudioFormat rd sz stream =
     bind_err (read_struct ''read wave format'' rd sizeof_WaveFormatEx) (\<lambda>(bs, rd).
       let stream = wfx_update (WaveFormatEx_of_bytes bs) stream
       in if sz > 18
          then bind_err (skip_bytes ''skip wave remainder'' rd (sz - 18)) (\<lambda>rd.
                 Inr (rd, stream))
          else Inr (rd, stream))"

definition parseSTRFChunk :: "Reader \<Rightarrow> uint32 \<Rightarrow> Stream \<Rightarrow> error + (Reader \<times> Stream)" where
  "parseSTRFChunk rd sz stream =
     (if Stream_Type stream = StreamTypeVideo then parseVideoFormat rd sz stream
      else if Stream_Type stream = StreamTypeAudio then parseAudioFormat rd sz stream
      else bind_err (skip_bytes ''skip strf'' rd (AlignSize sz)) (\<lambda>rd. Inr (rd, stream)))"

text \<open>
  Termination of the walker's loops: every iteration that goes round again has read an
  8-byte chunk header, and no handler moves the cursor back, so the number of bytes
  between the cursor and the end of the data decreases.
\<close>

definition Reader_remaining :: "Reader \<Rightarrow> nat" where
  "Reader_remaining rd =
     (case Reader_r rd of
        None \<Rightarrow> 0
      | Some s \<Rightarrow> nat (int (length (rs_data s)) - rs_pos s))"

lemma bind_err_cong [fundef_cong]:
  "m = m' \<Longrightarrow> (\<And>x. m' = Inr x \<Longrightarrow> f x = f' x) \<Longrightarrow> bind_err m f = bind_err m' f'"
  by (auto simp: bind_err_def split: sum.splits)

lemma bind_err_Inr:
  "bind_err m f = Inr y \<longleftrightarrow> (\<exists>x. m = Inr x \<and> f x = Inr y)"
  by (auto simp: bind_err_def split: sum.splits)

lemma wrapErr_Inr: "wrapErr opn m = Inr x \<longleftrightarrow> m = Inr x"
  by (cases "(opn, m)" rule: wrapErr.cases) auto

lemma Reader_Seek_remaining:
  "Reader_Seek rd k 1 = Inr (p, rd') \<Longrightarrow> 0 \<le> k \<Longrightarrow> Reader_remaining rd' \<le> Reader_remaining rd"
  by (auto simp: Reader_Seek_def ReadSeeker_Seek_def Reader_remaining_def Let_def
           split: option.splits if_splits sum.splits)

lemma binary_Read_remaining:
  "binary_Read rd n = (Inr bs, rd') \<Longrightarrow> Reader_remaining rd' + n \<le> Reader_remaining rd"
  by (auto simp: binary_Read_def io_ReadFull_def Reader_remaining_def Let_def
           split: option.splits if_splits prod.splits)

lemma read_struct_remaining:
  "read_struct opn rd n = Inr (bs, rd') \<Longrightarrow> Reader_remaining rd' + n \<le> Reader_remaining rd"
  by (auto simp: read_struct_def wrapErr_Inr split: prod.splits sum.splits
           dest: binary_Read_remaining)

lemma skip_bytes_remaining:
  "skip_bytes opn rd n = Inr rd' \<Longrightarrow> Reader_remaining rd' \<le> Reader_remaining rd"
  by (auto simp: skip_bytes_def wrapErr_Inr split: sum.splits
           dest: Reader_Seek_remaining)

lemma chunk_skeleton_remaining:
  assumes "bind_err (read_struct opn rd n)
             (\<lambda>(bs, rd1). if c then bind_err (skip_bytes opn2 rd1 k) (\<lambda>rd2. Inr (rd2, g bs))
                           else Inr (rd1, g bs)) = Inr (rd', x)"
  shows "Reader_remaining rd' + n \<le> Reader_remaining rd"
proof -
  from assms obtain y where
    r0: "read_struct opn rd n = Inr y" and
    k0: "(case y of (bs, rd1) \<Rightarrow>
            if c then bind_err (skip_bytes opn2 rd1 k) (\<lambda>rd2. Inr (rd2, g bs))
            else Inr (rd1, g bs)) = Inr (rd', x)"
    unfolding bind_err_Inr by blast
  obtain bs rd1 where y: "y = (bs, rd1)" by (cases y)
  from r0 k0 have
    r: "read_struct opn rd n = Inr (bs, rd1)" and
    k: "(if c then bind_err (skip_bytes opn2 rd1 k) (\<lambda>rd2. Inr (rd2, g bs))
         else Inr (rd1, g bs)) = Inr (rd', x)"
    unfolding y by simp_all
  have "Reader_remaining rd' \<le> Reader_remaining rd1"
  proof (cases c)
    case True
    with k obtain rd2 where "skip_bytes opn2 rd1 k = Inr rd2" "rd2 = rd'"
      by (auto simp: bind_err_Inr)
    then show ?thesis using skip_bytes_remaining by blast
  next
    case False
    with k show ?thesis by simp
  qed
  with read_struct_remaining[OF r] show ?thesis by linarith
qed

lemma parseSTRHChunk_remaining:
  "parseSTRHChunk fl rd sz stream = Inr (rd', stream') \<Longrightarrow>
     Reader_remaining rd' + 56 \<le> Reader_remaining rd"
  unfolding parseSTRHChunk_def Let_def sizeof_AVIStreamHeader_def
  by (rule chunk_skeleton_remaining)

lemma parseVideoFormat_remaining:
  "parseVideoFormat rd sz stream = Inr (rd', stream') \<Longrightarrow>
     Reader_remaining rd' + 40 \<le> Reader_remaining rd"
  unfolding parseVideoFormat_def Let_def sizeof_BitmapInfoHeader_def
  by (rule chunk_skeleton_remaining)

lemma parseAudioFormat_remaining:
  "parseAudioFormat rd sz stream = Inr (rd', stream') \<Longrightarrow>
     Reader_remaining rd' + 18 \<le> Reader_remaining rd"
  unfolding parseAudioFormat_def Let_def sizeof_WaveFormatEx_def
  by (rule chunk_skeleton_remaining)

lemma parseSTRFChunk_remaining:
  "parseSTRFChunk rd sz stream = Inr (rd', stream') \<Longrightarrow>
     Reader_remaining rd' \<le> Reader_remaining rd"
  unfolding parseSTRFChunk_def
  by (auto simp: bind_err_Inr split: if_splits
           dest: parseVideoFormat_remaining parseAudioFormat_remaining skip_bytes_remaining)

definition parseSTRL_chunk :: "float64_ops \<Rightarrow> Reader \<Rightarrow> ChunkHeader \<Rightarrow> Stream \<Rightarrow> error + (Reader \<times> Stream)" where
  "parseSTRL_chunk fl rd header stream =
     (if ch_ID header = STRHChunk then parseSTRHChunk fl rd (ch_Size header) stream
      else if ch_ID header = STRFChunk then parseSTRFChunk rd (ch_Size header) stream
      else bind_err (skip_bytes ''skip strl chunk'' rd (AlignSize (ch_Size header))) (\<lambda>rd.
             Inr (rd, stream)))"

lemma parseSTRL_chunk_remaining:
  "parseSTRL_chunk fl rd header stream = Inr (rd', stream') \<Longrightarrow>
     Reader_remaining rd' \<le> Reader_remaining rd"
  unfolding parseSTRL_chunk_def
  by (auto simp: bind_err_Inr split: if_splits
           dest: parseSTRHChunk_remaining parseSTRFChunk_remaining skip_bytes_remaining)

lemma Reader_Seek_tell_remaining:
  "Reader_Seek rd 0 1 = Inr (p, rd') \<Longrightarrow> Reader_remaining rd' = Reader_remaining rd"
  by (auto simp: Reader_Seek_def ReadSeeker_Seek_def Reader_remaining_def Let_def
           split: option.splits if_splits sum.splits)

function parseSTRL_loop :: "float64_ops \<Rightarrow> Reader \<Rightarrow> int \<Rightarrow> Stream \<Rightarrow> error + (Reader \<times> Stream)" where
  "parseSTRL_loop fl rd endPos stream =
     (case Reader_Seek rd 0 1 of
        Inl e \<Rightarrow> Inr (rd, stream)
      | Inr (p, rd1) \<Rightarrow>
          if p \<ge> endPos then Inr (rd1, stream)
          else
            (case binary_Read rd1 sizeof_ChunkHeader of
               (Inl e, rd2) \<Rightarrow>
                 if e = EOF then Inr (rd2, stream) else wrapErr ''read strl chunk'' (Inl e)
             | (Inr bs, rd2) \<Rightarrow>
                 bind_err (parseSTRL_chunk fl rd2 (ChunkHeader_of_bytes bs) stream)
                   (\<lambda>(rd3, stream'). parseSTRL_loop fl rd3 endPos stream')))"
  by pat_completeness auto
termination
proof (relation "measure (\<lambda>(fl, rd, endPos, stream). Reader_remaining rd)")
  show "wf (measure (\<lambda>(fl, rd, endPos, stream). Reader_remaining rd))" by simp
next
  fix fl :: float64_ops and rd :: Reader and endPos :: int and stream :: Stream
    and x2 p rd1 x y bs rd2 xa rd3 stream'
  assume "Reader_Seek rd 0 1 = Inr x2" "(p, rd1) = x2"
    "(x, rd2) = binary_Read rd1 sizeof_ChunkHeader" "x = Inr bs"
    "parseSTRL_chunk fl rd2 (ChunkHeader_of_bytes bs) stream = Inr xa" "(rd3, stream') = xa"
  then have "Reader_remaining rd1 = Reader_remaining rd"
    "Reader_remaining rd2 + 8 \<le> Reader_remaining rd1"
    "Reader_remaining rd3 \<le> Reader_remaining rd2"
    using Reader_Seek_tell_remaining[of rd p rd1] binary_Read_remaining[of rd1 8 bs rd2]
      parseSTRL_chunk_remaining[of fl rd2 "ChunkHeader_of_bytes bs" stream rd3 stream']
    by (simp_all add: sizeof_ChunkHeader_def)
  then show "((fl, rd3, endPos, stream'), fl, rd, endPos, stream)
        \<in> measure (\<lambda>(fl, rd, endPos, stream). Reader_remaining rd)"
    by simp
qed

declare parseSTRL_loop.simps [simp del]

lemma parseSTRL_loop_remaining:
  "parseSTRL_loop fl rd endPos stream = Inr (rd', stream') \<Longrightarrow>
     Reader_remaining rd' \<le> Reader_remaining rd"
proof (induction fl rd endPos stream rule: parseSTRL_loop.induct)
  case (1 fl rd endPos stream)
  note eq = "1.prems"[unfolded parseSTRL_loop.simps[of fl rd endPos stream]]
  show ?case
  proof (cases "Reader_Seek rd 0 1")
    case (Inl e)
    with eq show ?thesis by simp
  next
    case (Inr x)
    obtain p rd1 where x: "x = (p, rd1)" by (cases x)
    have r1: "Reader_remaining rd1 = Reader_remaining rd"
      using Inr x Reader_Seek_tell_remaining by blast
    show ?thesis
    proof (cases "p \<ge> endPos")
      case True
      with eq Inr x r1 show ?thesis by simp
    next
      case False
      obtain res rd2 where b: "binary_Read rd1 sizeof_ChunkHeader = (res, rd2)"
        by (cases "binary_Read rd1 sizeof_ChunkHeader")
      show ?thesis
      proof (cases res)
        case (Inl e)
        with eq Inr x False b have "e = EOF" "rd' = rd2"
          by (auto split: if_splits simp: wrapErr_Inr)
        moreover have "Reader_remaining rd2 \<le> Reader_remaining rd1"
          using b Inl
          by (auto simp: binary_Read_def io_ReadFull_def Reader_remaining_def Let_def
                   split: option.splits if_splits prod.splits)
        ultimately show ?thesis using r1 by simp
      next
        case (Inr bs)
        with eq \<open>Reader_Seek rd 0 1 = Inr x\<close> x False b obtain rd3 stream3 where
          c: "parseSTRL_chunk fl rd2 (ChunkHeader_of_bytes bs) stream = Inr (rd3, stream3)" and
          l: "parseSTRL_loop fl rd3 endPos stream3 = Inr (rd', stream')"
          by (auto simp: bind_err_Inr)
        have "Reader_remaining rd' \<le> Reader_remaining rd3"
          using "1.IH"[OF \<open>Reader_Seek rd 0 1 = Inr x\<close> x[symmetric] False b[symmetric] Inr c refl l] .
        moreover have "Reader_remaining rd3 \<le> Reader_remaining rd2"
          using c by (rule parseSTRL_chunk_remaining)
        moreover have "Reader_remaining rd2 + 8 \<le> Reader_remaining rd1"
          using b Inr binary_Read_remaining[of rd1 8 bs rd2] by (simp add: sizeof_ChunkHeader_def)
        ultimately show ?thesis using r1 by linarith
      qed
    qed
  qed
qed

definition parseSTRLList :: "float64_ops \<Rightarrow> Reader \<Rightarrow> uint32 \<Rightarrow> Stream list \<Rightarrow> error + (Reader \<times> Stream list)" where
  "parseSTRLList fl rd sz streams =
     bind_err (read_struct ''read strl type'' rd 4) (\<lambda>(bs, rd).
       if rd_fourcc bs \<noteq> STRLList
       then bind_err (skip_bytes ''skip non-strl'' rd (AlignSize (sz - 4))) (\<lambda>rd.
              Inr (rd, streams))
       else
         let stream = zero_Stream\<lparr>Index := int (length streams)\<rparr>
         in bind_err (wrapErr ''get strl position'' (Reader_Seek rd 0 1)) (\<lambda>(endPos, rd).
            bind_err (parseSTRL_loop fl rd (endPos + uint (sz - 4)) stream) (\<lambda>(rd, stream).
              Inr (rd, streams @ [stream]))))"

lemma parseSTRLList_remaining:
  assumes "parseSTRLList fl rd sz streams = Inr (rd', streams')"
  shows "Reader_remaining rd' \<le> Reader_remaining rd"
proof -
  from assms obtain y where
    r0: "read_struct ''read strl type'' rd 4 = Inr y" and
    k0: "(case y of (bs, rd) \<Rightarrow>
       if rd_fourcc bs \<noteq> STRLList
       then bind_err (skip_bytes ''skip non-strl'' rd (AlignSize (sz - 4))) (\<lambda>rd.
              Inr (rd, streams))
       else
         let stream = zero_Stream\<lparr>Index := int (length streams)\<rparr>
         in bind_err (wrapErr ''get strl position'' (Reader_Seek rd 0 1)) (\<lambda>(endPos, rd).
            bind_err (parseSTRL_loop fl rd (endPos + uint (sz - 4)) stream) (\<lambda>(rd, stream).
              Inr (rd, streams @ [stream])))) = Inr (rd', streams')"
    unfolding parseSTRLList_def bind_err_Inr by blast
  obtain bs rd1 where y: "y = (bs, rd1)" by (cases y)
  have r1: "Reader_remaining rd1 \<le> Reader_remaining rd"
    using read_struct_remaining[OF r0[unfolded y]] by simp
  show ?thesis
  proof (cases "rd_fourcc bs \<noteq> STRLList")
    case True
    with k0 y have "skip_bytes ''skip non-strl'' rd1 (AlignSize (sz - 4)) = Inr rd'"
      by (auto simp: bind_err_Inr)
    then show ?thesis using r1 skip_bytes_remaining by fastforce
  next
    case False
    with k0 y obtain endPos rd2 rd3 stream3 where
      s: "Reader_Seek rd1 0 1 = Inr (endPos, rd2)" and
      l: "parseSTRL_loop fl rd2 (endPos + uint (sz - 4)) (zero_Stream\<lparr>Index := int (length streams)\<rparr>)
            = Inr (rd3, stream3)" and
      e: "rd' = rd3"
      by (auto simp: bind_err_Inr wrapErr_Inr Let_def)
    from s have "Reader_remaining rd2 = Reader_remaining rd1"
      by (rule Reader_Seek_tell_remaining)
    moreover from l have "Reader_remaining rd3 \<le> Reader_remaining rd2"
      by (rule parseSTRL_loop_remaining)
    ultimately show ?thesis using r1 e by simp
  qed
qed

text \<open>\<open>time.Microsecond\<close> is 1000 nanoseconds.\<close>

definition parseAVIHChunk :: "Reader \<Rightarrow> uint32 \<Rightarrow> FileInfo \<Rightarrow> error + (Reader \<times> FileInfo)" where
  "parseAVIHChunk rd sz fileInfo =
     bind_err (read_struct ''read avih'' rd sizeof_AVIMainHeader) (\<lambda>(bs, rd).
       let header = AVIMainHeader_of_bytes bs;
           fileInfo =
             (if avih_MicroSecPerFrame header > 0
              then fileInfo\<lparr>FileInfo_Duration :=
                     ucast (avih_TotalFrames header) * ucast (avih_MicroSecPerFrame header)
                     * 1000\<rparr>
              else fileInfo)
       in if sz > 56
          then bind_err (skip_bytes ''skip avih remainder'' rd (sz - 56)) (\<lambda>rd.
                 Inr (rd, fileInfo))
          else Inr (rd, fileInfo))"

lemma parseAVIHChunk_remaining:
  "parseAVIHChunk rd sz fileInfo = Inr (rd', fileInfo') \<Longrightarrow>
     Reader_remaining rd' + 56 \<le> Reader_remaining rd"
  unfolding parseAVIHChunk_def Let_def sizeof_AVIMainHeader_def
  by (rule chunk_skeleton_remaining)

definition parseHDRL_chunk ::
  "float64_ops \<Rightarrow> Reader \<Rightarrow> ChunkHeader \<Rightarrow> Stream list \<times> FileInfo \<Rightarrow> error + (Reader \<times> Stream list \<times> FileInfo)" where
  "parseHDRL_chunk fl rd header st =
     (case st of (streams, fileInfo) \<Rightarrow>
        if ch_ID header = AVIHChunk
        then bind_err (parseAVIHChunk rd (ch_Size header) fileInfo) (\<lambda>(rd, fileInfo).
               Inr (rd, streams, fileInfo))
        else if ch_ID header = LISTSignature
        then bind_err (parseSTRLList fl rd (ch_Size header) streams) (\<lambda>(rd, streams).
               Inr (rd, streams, fileInfo))
        else bind_err (skip_bytes ''skip hdrl chunk'' rd (AlignSize (ch_Size header))) (\<lambda>rd.
               Inr (rd, streams, fileInfo)))"

lemma parseHDRL_chunk_remaining:
  "parseHDRL_chunk fl rd header st = Inr (rd', st') \<Longrightarrow>
     Reader_remaining rd' \<le> Reader_remaining rd"
  unfolding parseHDRL_chunk_def
  by (auto simp: bind_err_Inr split: if_splits prod.splits
           dest: parseAVIHChunk_remaining parseSTRLList_remaining skip_bytes_remaining)

function parseHDRL_loop ::
  "float64_ops \<Rightarrow> Reader \<Rightarrow> int \<Rightarrow> Stream list \<times> FileInfo \<Rightarrow> error + (Reader \<times> Stream list \<times> FileInfo)" where
  "parseHDRL_loop fl rd endPos st =
     (case Reader_Seek rd 0 1 of
        Inl e \<Rightarrow> Inr (rd, st)
      | Inr (p, rd1) \<Rightarrow>
          if p \<ge> endPos then Inr (rd1, st)
          else
            (case binary_Read rd1 sizeof_ChunkHeader of
               (Inl e, rd2) \<Rightarrow>
                 if e = EOF then Inr (rd2, st) else wrapErr ''read hdrl chunk'' (Inl e)
             | (Inr bs, rd2) \<Rightarrow>
                 bind_err (parseHDRL_chunk fl rd2 (ChunkHeader_of_bytes bs) st)
                   (\<lambda>(rd3, st'). parseHDRL_loop fl rd3 endPos st')))"
  by pat_completeness auto
termination
proof (relation "measure (\<lambda>(fl, rd, endPos, st). Reader_remaining rd)")
  show "wf (measure (\<lambda>(fl, rd, endPos, st). Reader_remaining rd))" by simp
next
  fix fl :: float64_ops and rd :: Reader and endPos :: int and st :: "Stream list \<times> FileInfo"
    and x2 p rd1 x y bs rd2 xa rd3 st'
  assume "Reader_Seek rd 0 1 = Inr x2" "(p, rd1) = x2"
    "(x, rd2) = binary_Read rd1 sizeof_ChunkHeader" "x = Inr bs"
    "parseHDRL_chunk fl rd2 (ChunkHeader_of_bytes bs) st = Inr xa" "(rd3, st') = xa"
  then have "Reader_remaining rd1 = Reader_remaining rd"
    "Reader_remaining rd2 + 8 \<le> Reader_remaining rd1"
    "Reader_remaining rd3 \<le> Reader_remaining rd2"
    using Reader_Seek_tell_remaining[of rd p rd1] binary_Read_remaining[of rd1 8 bs rd2]
      parseHDRL_chunk_remaining[of fl rd2 "ChunkHeader_of_bytes bs" st rd3 st']
    by (simp_all add: sizeof_ChunkHeader_def)
  then show "((fl, rd3, endPos, st'), fl, rd, endPos, st)
        \<in> measure (\<lambda>(fl, rd, endPos, st). Reader_remaining rd)"
    by simp
qed

declare parseHDRL_loop.simps [simp del]

lemma parseHDRL_loop_remaining:
  "parseHDRL_loop fl rd endPos st = Inr (rd', st') \<Longrightarrow>
     Reader_remaining rd' \<le> Reader_remaining rd"
proof (induction fl rd endPos st rule: parseHDRL_loop.induct)
  case (1 fl rd endPos st)
  note eq = "1.prems"[unfolded parseHDRL_loop.simps[of fl rd endPos st]]
  show ?case
  proof (cases "Reader_Seek rd 0 1")
    case (Inl e)
    with eq show ?thesis by simp
  next
    case (Inr x)
    obtain p rd1 where x: "x = (p, rd1)" by (cases x)
    have r1: "Reader_remaining rd1 = Reader_remaining rd"
      using Inr x Reader_Seek_tell_remaining by blast
    show ?thesis
    proof (cases "p \<ge> endPos")
      case True
      with eq Inr x r1 show ?thesis by simp
    next
      case False
      obtain res rd2 where b: "binary_Read rd1 sizeof_ChunkHeader = (res, rd2)"
        by (cases "binary_Read rd1 sizeof_ChunkHeader")
      show ?thesis
      proof (cases res)
        case (Inl e)
        with eq Inr x False b have "e = EOF" "rd' = rd2"
          by (auto split: if_splits simp: wrapErr_Inr)
        moreover have "Reader_remaining rd2 \<le> Reader_remaining rd1"
          using b Inl
          by (auto simp: binary_Read_def io_ReadFull_def Reader_remaining_def Let_def
                   split: option.splits if_splits prod.splits)
        ultimately show ?thesis using r1 by simp
      next
        case (Inr bs)
        with eq \<open>Reader_Seek rd 0 1 = Inr x\<close> x False b obtain rd3 st3 where
          c: "parseHDRL_chunk fl rd2 (ChunkHeader_of_bytes bs) st = Inr (rd3, st3)" and
          l: "parseHDRL_loop fl rd3 endPos st3 = Inr (rd', st')"
          by (auto simp: bind_err_Inr)
        have "Reader_remaining rd' \<le> Reader_remaining rd3"
          using "1.IH"[OF \<open>Reader_Seek rd 0 1 = Inr x\<close> x[symmetric] False b[symmetric] Inr c refl l] .
        moreover have "Reader_remaining rd3 \<le> Reader_remaining rd2"
          using c by (rule parseHDRL_chunk_remaining)
        moreover have "Reader_remaining rd2 + 8 \<le> Reader_remaining rd1"
          using b Inr binary_Read_remaining[of rd1 8 bs rd2] by (simp add: sizeof_ChunkHeader_def)
        ultimately show ?thesis using r1 by linarith
      qed
    qed
  qed
qed

definition parseHDRLList ::
  "float64_ops \<Rightarrow> Reader \<Rightarrow> uint32 \<Rightarrow> Stream list \<times> FileInfo \<Rightarrow> error + (Reader \<times> Stream list \<times> FileInfo)" where
  "parseHDRLList fl rd sz st =
     bind_err (wrapErr ''get position'' (Reader_Seek rd 0 1)) (\<lambda>(endPos, rd).
       parseHDRL_loop fl rd (endPos + uint sz) st)"

text \<open>
  \<open>parseLISTChunk\<close>.  For the payload list the error of the position query is
  dropped (\<open>currentPos, _ := ...\<close>), which leaves \<open>currentPos\<close> at 0.
\<close>

definition parseLISTChunk ::
  "float64_ops \<Rightarrow> Reader \<Rightarrow> uint32 \<Rightarrow> Stream list \<times> FileInfo \<Rightarrow> error + (Reader \<times> Stream list \<times> FileInfo)" where
  "parseLISTChunk fl rd sz st =
     bind_err (read_struct ''read list type'' rd 4) (\<lambda>(bs, rd).
       let listType = rd_fourcc bs;
           remainingSize = sz - 4
       in if listType = HDRLList then parseHDRLList fl rd remainingSize st
          else if listType = MOVIList
          then
            let (currentPos, rd) =
                  (case Reader_Seek rd 0 1 of Inl e \<Rightarrow> (0, rd) | Inr (p, rd') \<Rightarrow> (p, rd'));
                rd = rd\<lparr>Reader_moviOffset := currentPos - 4\<rparr>
            in bind_err (skip_bytes ''skip movi'' rd (AlignSize remainingSize)) (\<lambda>rd.
                 Inr (rd, st))
          else bind_err (skip_bytes ''skip list'' rd (AlignSize remainingSize)) (\<lambda>rd.
                 Inr (rd, st)))"

text \<open>
  \<open>parseIDX1Chunk\<close>: \<open>size / 16\<close> entries are read one after the other; any read
  error, end of data included, is returned.
\<close>

fun readIndexEntries :: "nat \<Rightarrow> Reader \<Rightarrow> IndexEntry list \<Rightarrow> error + (Reader \<times> IndexEntry list)" where
  "readIndexEntries 0 rd entries = Inr (rd, entries)"
| "readIndexEntries (Suc n) rd entries =
     bind_err (read_struct ''read index entry'' rd sizeof_IndexEntry) (\<lambda>(bs, rd).
       readIndexEntries n rd (entries @ [IndexEntry_of_bytes bs]))"

definition parseIDX1Chunk :: "Reader \<Rightarrow> uint32 \<Rightarrow> error + Reader" where
  "parseIDX1Chunk rd sz =
     (let numEntries = sz div 16
      in bind_err (readIndexEntries (unat numEntries) rd []) (\<lambda>(rd, entries).
           Inr (rd\<lparr>Reader_indexEntries := entries\<rparr>)))"

lemma parseHDRLList_remaining:
  "parseHDRLList fl rd sz st = Inr (rd', st') \<Longrightarrow> Reader_remaining rd' \<le> Reader_remaining rd"
  unfolding parseHDRLList_def
  by (auto simp: bind_err_Inr wrapErr_Inr
           dest!: Reader_Seek_tell_remaining parseHDRL_loop_remaining)

lemma moviOffset_remaining [simp]:
  "Reader_remaining (rd\<lparr>Reader_moviOffset := k\<rparr>) = Reader_remaining rd"
  by (simp add: Reader_remaining_def)

lemma indexEntries_remaining [simp]:
  "Reader_remaining (rd\<lparr>Reader_indexEntries := es\<rparr>) = Reader_remaining rd"
  by (simp add: Reader_remaining_def)

lemma parseLISTChunk_remaining:
  assumes "parseLISTChunk fl rd sz st = Inr (rd', st')"
  shows "Reader_remaining rd' \<le> Reader_remaining rd"
proof -
  from assms obtain y where
    r0: "read_struct ''read list type'' rd 4 = Inr y" and
    k0: "(case y of (bs, rd) \<Rightarrow>
       let listType = rd_fourcc bs;
           remainingSize = sz - 4
       in if listType = HDRLList then parseHDRLList fl rd remainingSize st
          else if listType = MOVIList
          then
            let (currentPos, rd) =
                  (case Reader_Seek rd 0 1 of Inl e \<Rightarrow> (0, rd) | Inr (p, rd') \<Rightarrow> (p, rd'));
                rd = rd\<lparr>Reader_moviOffset := currentPos - 4\<rparr>
            in bind_err (skip_bytes ''skip movi'' rd (AlignSize remainingSize)) (\<lambda>rd.
                 Inr (rd, st))
          else bind_err (skip_bytes ''skip list'' rd (AlignSize remainingSize)) (\<lambda>rd.
                 Inr (rd, st))) = Inr (rd', st')"
    unfolding parseLISTChunk_def bind_err_Inr by blast
  obtain bs rd1 where y: "y = (bs, rd1)" by (cases y)
  have r1: "Reader_remaining rd1 \<le> Reader_remaining rd"
    using read_struct_remaining[OF r0[unfolded y]] by simp
  consider (hdrl) "rd_fourcc bs = HDRLList"
    | (movi) "rd_fourcc bs \<noteq> HDRLList" "rd_fourcc bs = MOVIList"
    | (other) "rd_fourcc bs \<noteq> HDRLList" "rd_fourcc bs \<noteq> MOVIList" by blast
  then show ?thesis
  proof cases
    case hdrl
    with k0 y have "parseHDRLList fl rd1 (sz - 4) st = Inr (rd', st')" by (simp add: Let_def)
    then show ?thesis using r1 parseHDRLList_remaining by fastforce
  next
    case movi
    obtain currentPos rd2 where
      s: "(case Reader_Seek rd1 0 1 of Inl e \<Rightarrow> (0, rd1) | Inr (p, rd') \<Rightarrow> (p, rd')) = (currentPos, rd2)"
      by (cases "case Reader_Seek rd1 0 1 of Inl e \<Rightarrow> (0, rd1) | Inr (p, rd') \<Rightarrow> (p, rd')")
    have r2: "Reader_remaining rd2 = Reader_remaining rd1"
      using s by (auto split: sum.splits dest: Reader_Seek_tell_remaining)
    from k0 y movi s have
      "skip_bytes ''skip movi'' (rd2\<lparr>Reader_moviOffset := currentPos - 4\<rparr>) (AlignSize (sz - 4)) = Inr rd'"
      by (auto simp: Let_def bind_err_Inr)
    from skip_bytes_remaining[OF this] show ?thesis using r1 r2 by simp
  next
    case other
    with k0 y have "skip_bytes ''skip list'' rd1 (AlignSize (sz - 4)) = Inr rd'"
      by (auto simp: Let_def bind_err_Inr)
    from skip_bytes_remaining[OF this] show ?thesis using r1 by simp
  qed
qed

lemma readIndexEntries_remaining:
  "readIndexEntries n rd es = Inr (rd', es') \<Longrightarrow> Reader_remaining rd' \<le> Reader_remaining rd"
proof (induction n arbitrary: rd es)
  case 0
  then show ?case by simp
next
  case (Suc n)
  from Suc.prems obtain bs rd1 where
    r: "read_struct ''read index entry'' rd sizeof_IndexEntry = Inr (bs, rd1)" and
    l: "readIndexEntries n rd1 (es @ [IndexEntry_of_bytes bs]) = Inr (rd', es')"
    by (auto simp: bind_err_Inr)
  from Suc.IH[OF l] read_struct_remaining[OF r] show ?case by simp
qed

lemma parseIDX1Chunk_remaining:
  "parseIDX1Chunk rd sz = Inr rd' \<Longrightarrow> Reader_remaining rd' \<le> Reader_remaining rd"
  unfolding parseIDX1Chunk_def Let_def
  by (auto simp: bind_err_Inr dest!: readIndexEntries_remaining)

definition parseChunks_chunk ::
  "float64_ops \<Rightarrow> Reader \<Rightarrow> ChunkHeader \<Rightarrow> Stream list \<times> FileInfo \<Rightarrow> error + (Reader \<times> Stream list \<times> FileInfo)" where
  "parseChunks_chunk fl rd header st =
     (if ch_ID header = LISTSignature then parseLISTChunk fl rd (ch_Size header) st
      else if ch_ID header = IDX1Chunk
      then bind_err (parseIDX1Chunk rd (ch_Size header)) (\<lambda>rd. Inr (rd, st))
      else bind_err (skip_bytes ''skip chunk'' rd (AlignSize (ch_Size header))) (\<lambda>rd.
             Inr (rd, st)))"

lemma parseChunks_chunk_remaining:
  "parseChunks_chunk fl rd header st = Inr (rd', st') \<Longrightarrow>
     Reader_remaining rd' \<le> Reader_remaining rd"
  unfolding parseChunks_chunk_def
  by (auto simp: bind_err_Inr split: if_splits
           dest: parseLISTChunk_remaining parseIDX1Chunk_remaining skip_bytes_remaining)

function parseChunks_loop ::
  "float64_ops \<Rightarrow> Reader \<Rightarrow> Stream list \<times> FileInfo \<Rightarrow> error + (Reader \<times> Stream list \<times> FileInfo)" where
  "parseChunks_loop fl rd st =
     (case Reader_Seek rd 0 1 of
        Inl e \<Rightarrow> Inr (rd, st)
      | Inr (p, rd1) \<Rightarrow>
          if p \<ge> Reader_fileSize rd1 - 8 then Inr (rd1, st)
          else
            (case binary_Read rd1 sizeof_ChunkHeader of
               (Inl e, rd2) \<Rightarrow>
                 if e = EOF then Inr (rd2, st) else wrapErr ''read chunk header'' (Inl e)
             | (Inr bs, rd2) \<Rightarrow>
                 bind_err (parseChunks_chunk fl rd2 (ChunkHeader_of_bytes bs) st)
                   (\<lambda>(rd3, st'). parseChunks_loop fl rd3 st')))"
  by pat_completeness auto
termination
proof (relation "measure (\<lambda>(fl, rd, st). Reader_remaining rd)")
  show "wf (measure (\<lambda>(fl, rd, st). Reader_remaining rd))" by simp
next
  fix fl :: float64_ops and rd :: Reader and st :: "Stream list \<times> FileInfo"
    and x2 p rd1 x y bs rd2 xa rd3 st'
  assume "Reader_Seek rd 0 1 = Inr x2" "(p, rd1) = x2"
    "(x, rd2) = binary_Read rd1 sizeof_ChunkHeader" "x = Inr bs"
    "parseChunks_chunk fl rd2 (ChunkHeader_of_bytes bs) st = Inr xa" "(rd3, st') = xa"
  then have "Reader_remaining rd1 = Reader_remaining rd"
    "Reader_remaining rd2 + 8 \<le> Reader_remaining rd1"
    "Reader_remaining rd3 \<le> Reader_remaining rd2"
    using Reader_Seek_tell_remaining[of rd p rd1] binary_Read_remaining[of rd1 8 bs rd2]
      parseChunks_chunk_remaining[of fl rd2 "ChunkHeader_of_bytes bs" st rd3 st']
    by (simp_all add: sizeof_ChunkHeader_def)
  then show "((fl, rd3, st'), fl, rd, st) \<in> measure (\<lambda>(fl, rd, st). Reader_remaining rd)"
    by simp
qed

declare parseChunks_loop.simps [simp del]

definition parseChunks :: "float64_ops \<Rightarrow> Reader \<Rightarrow> error + Reader" where
  "parseChunks fl rd =
     (let fileInfo = zero_FileInfo\<lparr>Filename := Reader_filename rd,
                                    FileSize := Reader_fileSize rd\<rparr>
      in bind_err (wrapErr ''seek'' (Reader_Seek rd 12 0)) (\<lambda>(p, rd).
         bind_err (parseChunks_loop fl rd ([], fileInfo)) (\<lambda>(rd, streams, fileInfo).
           let fileInfo = fileInfo\<lparr>Streams := streams\<rparr>;
               fileInfo = fileInfo\<lparr>
                 VideoStreams := VideoStreams fileInfo
                   + int (length (filter (\<lambda>stream. Stream_Type stream = StreamTypeVideo) streams)),
                 AudioStreams := AudioStreams fileInfo
                   + int (length (filter (\<lambda>stream. Stream_Type stream = StreamTypeAudio) streams))\<rparr>
           in Inr (rd\<lparr>Reader_streams := streams, Reader_fileInfo := Some fileInfo\<rparr>))))"

definition parseFile :: "float64_ops \<Rightarrow> Reader \<Rightarrow> error + Reader" where
  "parseFile fl rd =
     bind_err (read_struct ''read riff header'' rd sizeof_RIFFHeader) (\<lambda>(bs, rd).
       if \<not> IsValidRIFFSignature (rd_fourcc bs)
       then Inl (AVIError ''validate riff'' (ErrorString ''not a RIFF file''))
       else if \<not> IsValidAVISignature (rd_fourcc (drop 8 bs))
       then Inl (AVIError ''validate avi'' (ErrorString ''not an AVI file''))
       else parseChunks fl rd)"

definition Open :: "float64_ops \<Rightarrow> Reader \<Rightarrow> ReadSeeker \<Rightarrow> int \<Rightarrow> error + Reader" where
  "Open fl rd reader sz =
     parseFile fl (rd\<lparr>Reader_r := Some reader, Reader_fileSize := sz, Reader_filename := []\<rparr>)"

definition GetFileInfo :: "Reader \<Rightarrow> error + FileInfo" where
  "GetFileInfo rd =
     (case Reader_fileInfo rd of
        None \<Rightarrow> Inl (AVIError ''get file info'' (ErrorString ''file not opened''))
      | Some fileInfo \<Rightarrow> Inr fileInfo)"

text \<open>A slice that only ever grows by \<open>append\<close> from \<open>nil\<close> is \<open>nil\<close> exactly when it is empty.\<close>

definition GetStreams :: "Reader \<Rightarrow> error + Stream list" where
  "GetStreams rd =
     (if Reader_streams rd = []
      then Inl (AVIError ''get streams'' (ErrorString ''file not opened''))
      else Inr (Reader_streams rd))"

subsection \<open>Payload retrieval\<close>

text \<open>
  \<open>ReadPacketData\<close> returns the payload or the error, and the reader after the call:
  the source's cursor is part of what the call leaves behind.
\<close>

definition ReadPacketData :: "Reader \<Rightarrow> Packet \<Rightarrow> (error + byte list) \<times> Reader" where
  "ReadPacketData rd packet =
     (if Reader_r rd = None
      then (Inl (AVIError ''read packet data'' (ErrorString ''file not open'')), rd)
      else
        case Reader_Seek rd 0 1 of
          Inl e \<Rightarrow> (wrapErr ''get current position'' (Inl e), rd)
        | Inr (currentPos, rd) \<Rightarrow>
            (case Reader_Seek rd (Position packet) 0 of
               Inl e \<Rightarrow> (wrapErr ''seek to packet'' (Inl e), rd)
             | Inr (p, rd) \<Rightarrow>
                 (case binary_Read rd sizeof_ChunkHeader of
                    (Inl e, rd) \<Rightarrow> (wrapErr ''read packet header'' (Inl e), rd)
                  | (Inr bs, rd) \<Rightarrow>
                      let header = ChunkHeader_of_bytes bs;
                          dataSize = ch_Size header
                      in (case Reader_Seek rd 0 1 of
                            Inl e \<Rightarrow> (wrapErr ''get position after header'' (Inl e), rd)
                          | Inr (currentPosAfterHeader, rd) \<Rightarrow>
                              if currentPosAfterHeader + uint dataSize > Reader_fileSize rd
                              then (Inl (AVIError ''read packet data''
                                           (ErrorString ''packet would read beyond file bounds'')),
                                    rd)
                              else
                                (case binary_Read rd (unat dataSize) of
                                   (Inl e, rd) \<Rightarrow> (wrapErr ''read packet data'' (Inl e), rd)
                                 | (Inr data, rd) \<Rightarrow>
                                     (case Reader_Seek rd currentPos 0 of
                                        Inl e \<Rightarrow> (wrapErr ''restore position'' (Inl e), rd)
                                      | Inr (p, rd) \<Rightarrow> (Inr data, rd)))))))"

section \<open>demuxer.go: packet reconstruction\<close>

text \<open>
  The running count: the packets produced so far are scanned for those of the same
  stream and kind.
\<close>

definition count_packets :: "Packet list \<Rightarrow> int \<Rightarrow> StreamType \<Rightarrow> int" where
  "count_packets packets streamIndex codecType =
     int (length (filter (\<lambda>p. StreamIndex p = streamIndex \<and> Packet_Codec p = codecType)
                         packets))"

text \<open>
  The wall-clock fields \<open>(ptsTime, dtsTime, durationTime)\<close>.  \<open>time.Second\<close> is
  \<open>1000000000\<close>; the divisor is \<open>time.Duration(x)\<close>, the rate converted to
  \<open>int64\<close>, and the integer division panics when it is zero.
\<close>

definition wallclock :: "int64 \<Rightarrow> int \<Rightarrow> int64 \<Rightarrow> error + (int64 \<times> int64 \<times> int64)" where
  "wallclock rate dts ticks =
     (if rate = 0 then Inl (Panic ''integer divide by zero'')
      else
        let unitDuration = int64_div 1000000000 rate;
            dtsTime = word_of_int dts * unitDuration
        in Inr (dtsTime, dtsTime, ticks * unitDuration))"

text \<open>
  One iteration of the loop over the index: \<open>None\<close> is \<open>continue\<close>.
\<close>

definition reconstruct_entry :: "float64_ops \<Rightarrow> Reader \<Rightarrow> Packet list \<Rightarrow> IndexEntry \<Rightarrow> error + Packet option" where
  "reconstruct_entry fl rd packets entry =
     (let chunkID = idx_ChunkID entry;
          streamIndex = decodeStreamIndex chunkID
      in if streamIndex \<ge> int (length (Reader_streams rd)) then Inr None
         else
           let chunkType = drop 2 (fourcc_bytes chunkID);
               codec = Stream_Codec (Reader_streams rd ! nat streamIndex);
               flags = (if idx_Flags entry AND 0x10 \<noteq> 0 then ''K__'' else ''___'');
               position = uint (idx_Offset entry) + Reader_moviOffset rd
           in if chunkType = twoCC_dc \<or> chunkType = twoCC_db
              then
                let dts = count_packets packets streamIndex StreamTypeVideo
                in bind_err (if FPS codec > 0
                             then wallclock (f64_to_int64 fl (FPS codec)) dts 1
                             else Inr (0, 0, 0)) (\<lambda>(ptsTime, dtsTime, durationTime).
                     Inr (Some \<lparr>StreamIndex = streamIndex, Packet_Codec = StreamTypeVideo,
                                 Data = [], PTS = dts, DTS = dts, Duration = 1,
                                 Size = uint (idx_Size entry), Position = position,
                                 Flags = flags, PTSTime = ptsTime, DTSTime = dtsTime,
                                 DurationTime = durationTime\<rparr>))
              else if chunkType = twoCC_wb
              then
                let dts = count_packets packets streamIndex StreamTypeAudio * 1024
                in bind_err (if SampleRate codec > 0
                             then wallclock (word_of_int (SampleRate codec)) dts 1024
                             else Inr (0, 0, 0)) (\<lambda>(ptsTime, dtsTime, durationTime).
                     Inr (Some \<lparr>StreamIndex = streamIndex, Packet_Codec = StreamTypeAudio,
                                 Data = [], PTS = dts, DTS = dts, Duration = 1024,
                                 Size = uint (idx_Size entry), Position = position,
                                 Flags = flags, PTSTime = ptsTime, DTSTime = dtsTime,
                                 DurationTime = durationTime\<rparr>))
              else Inr None)"

fun ReadAllPackets_loop :: "float64_ops \<Rightarrow> Reader \<Rightarrow> IndexEntry list \<Rightarrow> Packet list \<Rightarrow> error + Packet list" where
  "ReadAllPackets_loop fl rd [] packets = Inr packets"
| "ReadAllPackets_loop fl rd (entry # entries) packets =
     bind_err (reconstruct_entry fl rd packets entry) (\<lambda>res.
       case res of
         None \<Rightarrow> ReadAllPackets_loop fl rd entries packets
       | Some packet \<Rightarrow> ReadAllPackets_loop fl rd entries (packets @ [packet]))"

definition ReadAllPackets :: "float64_ops \<Rightarrow> Reader \<Rightarrow> error + Packet list" where
  "ReadAllPackets fl rd =
     (if length (Reader_indexEntries rd) = 0
      then Inl (AVIError ''read packets'' (ErrorString ''no index entries found''))
      else ReadAllPackets_loop fl rd (Reader_indexEntries rd) [])"


section \<open>Worked inputs\<close>

text \<open>
  The streams and packets of the repository's own tests: an MJPG video stream of
  640 by 480 at 30 frames per second and a stereo 16-bit audio stream at 44100 Hz.
\<close>

definition example_video_codec :: Codec where
  "example_video_codec =
     \<lparr>Name = ''MJPG'', FourCC = (0x4D, 0x4A, 0x50, 0x47), Type = StreamTypeVideo,
      Width = 640, Height = 480, FPS = 30, Channels = 0, SampleRate = 0, BitDepth = 0\<rparr>"

definition example_audio_codec :: Codec where
  "example_audio_codec =
     \<lparr>Name = ''PCM'', FourCC = (0, 0, 0, 0), Type = StreamTypeAudio,
      Width = 0, Height = 0, FPS = 0, Channels = 2, SampleRate = 44100, BitDepth = 16\<rparr>"

definition example_packet ::
  "int \<Rightarrow> StreamType \<Rightarrow> byte list \<Rightarrow> int \<Rightarrow> int \<Rightarrow> string \<Rightarrow> Packet" where
  "example_packet streamIndex codecType payload ts dur flags =
     \<lparr>StreamIndex = streamIndex, Packet_Codec = codecType, Data = payload,
      PTS = ts, DTS = ts, Duration = dur, Size = int (length payload), Position = 0,
      Flags = flags, PTSTime = 0, DTSTime = 0, DurationTime = 0\<rparr>"

text \<open>
  The writer's calls in the required order on a fresh memory buffer, and the bytes the
  buffer holds after \<open>Finalize\<close>; the reader opened on those bytes as the tests do
  (\<open>bytes.NewReader(buffer.Bytes())\<close>, then \<open>Open(reader, len)\<close>).
\<close>

definition declare_streams :: "Codec list \<Rightarrow> Writer \<Rightarrow> error + Writer" where
  "declare_streams codecs wr =
     for_range (\<lambda>codec wr. bind_err (AddStream wr codec) (\<lambda>(i, wr). Inr wr)) codecs wr"

definition write_packets :: "Packet list \<Rightarrow> Writer \<Rightarrow> error + Writer" where
  "write_packets ps wr = for_range (\<lambda>packet wr. WritePacket wr packet) ps wr"

definition Serialize :: "float64_ops \<Rightarrow> Codec list \<Rightarrow> Packet list \<Rightarrow> error + byte list" where
  "Serialize fl codecs ps =
     bind_err (declare_streams codecs (Create NewMuxer NewSeekableBuffer)) (\<lambda>wr.
     bind_err (write_packets ps wr) (\<lambda>wr.
     bind_err (Finalize fl wr) (\<lambda>wr.
       case Writer_w wr of
         None \<Rightarrow> Inl (Panic ''nil pointer dereference'')
       | Some sb \<Rightarrow> Inr (buf sb))))"

definition OpenBytes :: "float64_ops \<Rightarrow> byte list \<Rightarrow> error + Reader" where
  "OpenBytes fl bs = Open fl NewDemuxer (NewReader bs) (int (length bs))"

text \<open>The cursor of the reader's source (\<open>None\<close> when there is no source).\<close>

definition Reader_cursor :: "Reader \<Rightarrow> int option" where
  "Reader_cursor rd = map_option rs_pos (Reader_r rd)"

text \<open>A writer on a fresh buffer with the video stream declared, before any packet.\<close>

definition one_video_writer :: Writer where
  "one_video_writer =
     \<lparr>Writer_w = Some NewSeekableBuffer, Writer_filename = [],
      Writer_streams = [\<lparr>Index = 0, Stream_Type = StreamTypeVideo,
                         Stream_Codec = example_video_codec, Stream_Duration = 0,
                         PacketCount = 0\<rparr>],
      Writer_packets = []\<rparr>"

text \<open>
  A twelve-byte source: the outer header alone (\<open>"RIFF"\<close>, a size field of 1000,
  \<open>"AVI "\<close>).
\<close>

definition riff_only_file :: "byte list" where
  "riff_only_file = [0x52, 0x49, 0x46, 0x46, 0xE8, 0x03, 0, 0, 0x41, 0x56, 0x49, 0x20]"

section \<open>Properties\<close>

subsection \<open>The memory buffer\<close>

lemma SeekableBuffer_Write_inside:
  assumes h: "0 \<le> pos sb \<and> pos sb + int (length p) \<le> int (length (buf sb))"
  shows "\<exists>sb'. SeekableBuffer_Write sb p = Inr (length p, sb')
         \<and> length (buf sb') = length (buf sb)
         \<and> pos sb' = pos sb + int (length p)
         \<and> (\<forall>i < length (buf sb).
               buf sb' ! i =
                 (if pos sb \<le> int i \<and> int i < pos sb + int (length p)
                  then p ! (i - nat (pos sb)) else buf sb ! i))"
proof (cases "pos sb < int (length (buf sb))")
  case True
  with h show ?thesis
    by (auto simp: SeekableBuffer_Write_def Let_def nth_append min_def nat_add_distrib)
next
  case False
  with h have "length p = 0" "pos sb = int (length (buf sb))" by linarith+
  then show ?thesis by (auto simp: SeekableBuffer_Write_def Let_def)
qed

lemma SeekableBuffer_Seek_past_end_Write:
  assumes h: "int (length (buf sb)) < c"
  shows "\<exists>sb1 sb2. SeekableBuffer_Seek sb c 0 = Inr (c, sb1)
         \<and> SeekableBuffer_Write sb1 p = Inr (length p, sb2)
         \<and> int (length (buf sb2)) = c + int (length p)
         \<and> (\<forall>i. length (buf sb) \<le> i \<and> int i < c \<longrightarrow> buf sb2 ! i = 0)
         \<and> (\<forall>i < length (buf sb). buf sb2 ! i = buf sb ! i)
         \<and> (\<forall>i < length p. buf sb2 ! (nat c + i) = p ! i)"
proof -
  from h have n: "nat c = length (buf sb) + nat (c - int (length (buf sb)))" by linarith
  show ?thesis
    using h by (auto simp: SeekableBuffer_Seek_def SeekableBuffer_Write_def Let_def nth_append n)
qed

text \<open>
  C7.  Memory-buffer overwrite law.  Writing \<open>n\<close> bytes at cursor \<open>c\<close> into a buffer of
  content length \<open>L \<ge> c + n\<close> keeps the length, puts the written bytes at \<open>[c, c+n)\<close>
  and leaves every other byte, in particular \<open>[c+n, L)\<close>, as it was.  Seeking to an
  absolute offset \<open>c > L\<close> and then writing \<open>n\<close> bytes gives a buffer of length
  \<open>c + n\<close> whose bytes in \<open>[L, c)\<close> are zero (the old content and the written bytes
  are in place around them).
\<close>

theorem SeekableBuffer_overwrite_law:
  "(0 \<le> pos sb \<and> pos sb + int (length p) \<le> int (length (buf sb)) \<longrightarrow>
      (\<exists>sb'. SeekableBuffer_Write sb p = Inr (length p, sb')
         \<and> length (buf sb') = length (buf sb)
         \<and> pos sb' = pos sb + int (length p)
         \<and> (\<forall>i < length (buf sb).
               buf sb' ! i =
                 (if pos sb \<le> int i \<and> int i < pos sb + int (length p)
                  then p ! (i - nat (pos sb)) else buf sb ! i))))
   \<and> (int (length (buf sb)) < c \<longrightarrow>
      (\<exists>sb1 sb2. SeekableBuffer_Seek sb c 0 = Inr (c, sb1)
         \<and> SeekableBuffer_Write sb1 p = Inr (length p, sb2)
         \<and> int (length (buf sb2)) = c + int (length p)
         \<and> (\<forall>i. length (buf sb) \<le> i \<and> int i < c \<longrightarrow> buf sb2 ! i = 0)
         \<and> (\<forall>i < length (buf sb). buf sb2 ! i = buf sb ! i)
         \<and> (\<forall>i < length p. buf sb2 ! (nat c + i) = p ! i)))"
  using SeekableBuffer_Write_inside[of sb p] SeekableBuffer_Seek_past_end_Write[of sb c p]
  by blast

theorem SeekableBuffer_overwrite_law_witness:
  "(\<exists>sb'. SeekableBuffer_Write \<lparr>buf = [1, 2, 3, 4, 5], pos = 1\<rparr> [9, 8] = Inr (2, sb')
       \<and> buf sb' = [1, 9, 8, 4, 5] \<and> pos sb' = 3)
   \<and> (\<exists>sb1 sb2. SeekableBuffer_Seek \<lparr>buf = [1, 2, 3, 4, 5], pos = 1\<rparr> 7 0 = Inr (7, sb1)
       \<and> SeekableBuffer_Write sb1 [9, 8] = Inr (2, sb2)
       \<and> buf sb2 = [1, 2, 3, 4, 5, 0, 0, 9, 8])"
  using SeekableBuffer_overwrite_law[of "\<lparr>buf = [1, 2, 3, 4, 5], pos = 1\<rparr>" "[9, 8]" 7]
  by (simp add: SeekableBuffer_Write_def SeekableBuffer_Seek_def Let_def numeral_eq_Suc)

subsection \<open>Chunk tags\<close>

lemma decode_MakeChunkID:
  "decodeStreamIndex (word_of_int (48 + i sdiv 10), word_of_int (48 + i smod 10), a, b)
     = i mod 256"
proof -
  have "(word_of_int (48 + i sdiv 10) - 48) * 10 + (word_of_int (48 + i smod 10) - (48::byte))
        = word_of_int (i sdiv 10 * 10 + i smod 10)"
    by simp
  also have "i sdiv 10 * 10 + i smod 10 = i"
    by (rule sdiv_mult_smod_eq)
  finally show ?thesis
    by (simp add: decodeStreamIndex_def uint_word_of_int)
qed

lemma MakeChunkID_digits:
  assumes a: "0 \<le> i" "i \<le> 99"
  shows "(0x30::byte) \<le> word_of_int (48 + i sdiv 10)"
        "word_of_int (48 + i sdiv 10) \<le> (0x39::byte)"
        "(0x30::byte) \<le> word_of_int (48 + i smod 10)"
        "word_of_int (48 + i smod 10) \<le> (0x39::byte)"
proof -
  from a have s: "i sdiv 10 = i div 10" "i smod 10 = i mod 10"
    by (simp_all add: signed_divide_int_def signed_modulo_int_def sgn_if)
  have u: "uint (word_of_int k :: byte) = k" if "0 \<le> k" "k < 256" for k
    using that by (simp add: uint_word_of_int)
  from a have "0 \<le> i div 10" "i div 10 \<le> 9" "0 \<le> i mod 10" "i mod 10 \<le> 9" by linarith+
  then have b: "48 \<le> 48 + i div 10" "48 + i div 10 \<le> 57" "48 \<le> 48 + i mod 10" "48 + i mod 10 \<le> 57"
    by linarith+
  have 1: "uint (word_of_int (48 + i div 10) :: byte) = 48 + i div 10"
    using b by (intro u) linarith+
  have 2: "uint (word_of_int (48 + i mod 10) :: byte) = 48 + i mod 10"
    using b by (intro u) linarith+
  show "(0x30::byte) \<le> word_of_int (48 + i sdiv 10)"
    unfolding s word_le_def 1 using b by simp
  show "word_of_int (48 + i sdiv 10) \<le> (0x39::byte)"
    unfolding s word_le_def 1 using b by simp
  show "(0x30::byte) \<le> word_of_int (48 + i smod 10)"
    unfolding s word_le_def 2 using b by simp
  show "word_of_int (48 + i smod 10) \<le> (0x39::byte)"
    unfolding s word_le_def 2 using b by simp
qed

text \<open>
  C10.  The two-digit stream-index tag round-trips only for the indices 0 to 99.  For every
  stream index \<open>i\<close> with \<open>0 \<le> i \<le> 99\<close> and every two-letter subtype, \<open>MakeChunkID\<close>
  returns a tag whose first two bytes are ASCII digits and whose last two are the subtype,
  and the decoding of \<open>ReadAllPackets\<close> recovers \<open>i\<close> from it.  For some \<open>i \<ge> 100\<close>
  (here 256, tag \<open>"I6dc"\<close>, decoded as 0) the first byte is greater than \<open>'9'\<close> and the
  decoding does not recover \<open>i\<close>.
\<close>

theorem chunk_tag_roundtrip_two_digits:
  "(\<forall>i twoCC. 0 \<le> i \<and> i \<le> 99 \<and> length twoCC = 2 \<longrightarrow>
      (\<exists>c0 c1 c2 c3. MakeChunkID i twoCC = Inr (c0, c1, c2, c3)
          \<and> 0x30 \<le> c0 \<and> c0 \<le> 0x39 \<and> 0x30 \<le> c1 \<and> c1 \<le> 0x39
          \<and> [c2, c3] = twoCC
          \<and> decodeStreamIndex (c0, c1, c2, c3) = i))
   \<and> (\<exists>i\<ge>100. \<forall>twoCC. length twoCC = 2 \<longrightarrow>
      (\<exists>c0 c1 c2 c3. MakeChunkID i twoCC = Inr (c0, c1, c2, c3)
          \<and> 0x39 < c0
          \<and> decodeStreamIndex (c0, c1, c2, c3) \<noteq> i))"
proof (intro conjI allI impI)
  fix i :: int and twoCC :: "byte list"
  assume a: "0 \<le> i \<and> i \<le> 99 \<and> length twoCC = 2"
  then obtain x y where t: "twoCC = [x, y]"
    by (cases twoCC; cases "tl twoCC") auto
  have d: "decodeStreamIndex (word_of_int (48 + i sdiv 10), word_of_int (48 + i smod 10), x, y) = i"
    using a decode_MakeChunkID[of i x y] by simp
  from a MakeChunkID_digits[of i] d
  show "\<exists>c0 c1 c2 c3. MakeChunkID i twoCC = Inr (c0, c1, c2, c3)
          \<and> 0x30 \<le> c0 \<and> c0 \<le> 0x39 \<and> 0x30 \<le> c1 \<and> c1 \<le> 0x39
          \<and> [c2, c3] = twoCC
          \<and> decodeStreamIndex (c0, c1, c2, c3) = i"
    by (simp add: MakeChunkID_def t)
next
  show "\<exists>i\<ge>100. \<forall>twoCC. length twoCC = 2 \<longrightarrow>
      (\<exists>c0 c1 c2 c3. MakeChunkID i twoCC = Inr (c0, c1, c2, c3)
          \<and> 0x39 < c0
          \<and> decodeStreamIndex (c0, c1, c2, c3) \<noteq> i)"
  proof (intro exI[of _ "256::int"] conjI allI impI)
    fix twoCC :: "byte list"
    assume "length twoCC = 2"
    then show "\<exists>c0 c1 c2 c3. MakeChunkID 256 twoCC = Inr (c0, c1, c2, c3)
          \<and> 0x39 < c0 \<and> decodeStreamIndex (c0, c1, c2, c3) \<noteq> 256"
      by (simp add: MakeChunkID_def decodeStreamIndex_def
                    signed_divide_int_def signed_modulo_int_def)
  qed simp
qed

theorem chunk_tag_roundtrip_two_digits_witness:
  "length twoCC_dc = 2
   \<and> (\<exists>c0 c1 c2 c3. MakeChunkID 42 twoCC_dc = Inr (c0, c1, c2, c3)
          \<and> [c2, c3] = twoCC_dc \<and> decodeStreamIndex (c0, c1, c2, c3) = 42)"
proof -
  have l: "0 \<le> (42::int) \<and> (42::int) \<le> 99 \<and> length twoCC_dc = 2"
    by (simp add: twoCC_dc_def)
  from chunk_tag_roundtrip_two_digits[THEN conjunct1, rule_format, OF l] l
  show ?thesis by blast
qed

subsection \<open>Writing a packet\<close>

lemma one_video_writer_reached:
  "AddStream (Create NewMuxer NewSeekableBuffer) example_video_codec
     = Inr (0, one_video_writer)"
  by (simp add: AddStream_def Create_def NewMuxer_def one_video_writer_def
                example_video_codec_def)

lemma WritePacket_rejects_large_index:
  "StreamIndex packet \<ge> int (length (Writer_streams wr)) \<Longrightarrow>
     \<exists>e. WritePacket wr packet = Inl e"
  by (simp add: WritePacket_def)

text \<open>
  C8 at a negative stream index.  With one stream declared, \<open>WritePacket\<close> accepts a
  packet whose stream index is \<open>-1\<close> and appends it to the pending list (the check is
  only \<open>StreamIndex \<ge> len(streams)\<close>); \<open>Finalize\<close> then panics when it indexes the
  stream list with it.
\<close>

theorem WritePacket_negative_index:
  "WritePacket one_video_writer (example_packet (- 1) StreamTypeVideo [1, 2, 3, 4] 0 1 ''K__'')
     = Inr (one_video_writer\<lparr>Writer_packets :=
              [example_packet (- 1) StreamTypeVideo [1, 2, 3, 4] 0 1 ''K__'']\<rparr>)
   \<and> Finalize fl (one_video_writer\<lparr>Writer_packets :=
              [example_packet (- 1) StreamTypeVideo [1, 2, 3, 4] 0 1 ''K__'']\<rparr>)
     = Inl (Panic ''index out of range'')"
  by code_simp

subsection \<open>Payload retrieval\<close>

text \<open>
  C5 on an error path.  The twelve-byte source opens; the cursor is then at 12.
  \<open>ReadPacketData\<close> for a packet at position 0 reads the eight bytes there as a chunk
  header declaring 1000 bytes, returns the out-of-bounds error, and leaves the cursor at
  8: the error returns come before the statement that restores the position.
\<close>

theorem ReadPacketData_error_moves_cursor:
  "\<exists>rd rd'. OpenBytes fl riff_only_file = Inr rd
      \<and> Reader_cursor rd = Some 12
      \<and> ReadPacketData rd (example_packet 0 StreamTypeVideo [] 0 1 ''K__'')
          = (Inl (AVIError ''read packet data''
                    (ErrorString ''packet would read beyond file bounds'')), rd')
      \<and> Reader_cursor rd' = Some 8"
  apply (rule exI[of _ "\<lparr>Reader_r = Some \<lparr>rs_data = riff_only_file, rs_pos = 12\<rparr>,
                         Reader_filename = [], Reader_fileSize = 12, Reader_streams = [],
                         Reader_fileInfo = Some (zero_FileInfo\<lparr>FileSize := 12\<rparr>),
                         Reader_moviOffset = 0, Reader_indexEntries = []\<rparr>"])
  apply (rule exI[of _ "\<lparr>Reader_r = Some \<lparr>rs_data = riff_only_file, rs_pos = 8\<rparr>,
                         Reader_filename = [], Reader_fileSize = 12, Reader_streams = [],
                         Reader_fileInfo = Some (zero_FileInfo\<lparr>FileSize := 12\<rparr>),
                         Reader_moviOffset = 0, Reader_indexEntries = []\<rparr>"])
  apply code_simp
  done

subsection \<open>The sizes written by \<open>Finalize\<close>\<close>

text \<open>
  C2 on a file with one video stream and one three-byte packet.  The file is 260 bytes
  long, so 252 bytes follow the first eight.  The three top-level regions declare 192
  (header list, at offset 16), 16 (payload list, at 216) and 16 (index, at 240), so the sum
  of the sub-signature and of the regions with their headers is
  \<open>4 + (8 + 192) + (8 + 16) + (8 + 16) = 252\<close> as well.  The size field of the outer
  header holds 244: \<open>writeAVIFile\<close> adds \<open>4 + hdrlSize + 8 + moviSize + 8 + idx1Size\<close>,
  which leaves out the eight bytes of the header list's own header.
\<close>

theorem riff_size_field_short_by_8:
  "case Serialize fl [example_video_codec]
          [example_packet 0 StreamTypeVideo [1, 2, 3] 0 1 ''K__''] of
     Inl e \<Rightarrow> False
   | Inr bs \<Rightarrow>
       length bs = 260
       \<and> take 4 bs = fourcc_bytes RIFFSignature
       \<and> rd32 (drop 4 bs) = 244
       \<and> take 4 (drop 8 bs) = fourcc_bytes AVISignature
       \<and> take 4 (drop 12 bs) = fourcc_bytes LISTSignature
       \<and> rd32 (drop 16 bs) = 192
       \<and> take 4 (drop 20 bs) = fourcc_bytes HDRLList
       \<and> take 4 (drop 212 bs) = fourcc_bytes LISTSignature
       \<and> rd32 (drop 216 bs) = 16
       \<and> take 4 (drop 220 bs) = fourcc_bytes MOVIList
       \<and> take 4 (drop 236 bs) = fourcc_bytes IDX1Chunk
       \<and> rd32 (drop 240 bs) = 16"
  by code_simp

text \<open>
  C3 on a file with one audio stream (stereo, 44100 Hz, 16 bits) and no packet.  The
  stream-format chunk starts at offset 164 with the tag \<open>"strf"\<close> and the declared size
  16.  Its body is the 18 bytes that \<open>binary.Write\<close> produces for \<open>WaveFormatEx\<close>
  (seven fields of 2, 2, 4, 4, 2, 2 and 2 bytes), from offset 172 to 189, and the payload
  list begins at offset 190.  Offset 188, where the declared size places the end of the
  body, holds the extra-size field, the last two bytes of the body.
\<close>

theorem audio_format_chunk_18_bytes:
  "case Serialize fl [example_audio_codec] [] of
     Inl e \<Rightarrow> False
   | Inr bs \<Rightarrow>
       length bs = 210
       \<and> take 8 (drop 164 bs) = [0x73, 0x74, 0x72, 0x66, 16, 0, 0, 0]
       \<and> take 18 (drop 172 bs)
           = [1, 0, 2, 0, 0x44, 0xAC, 0, 0, 0x10, 0xB1, 0x02, 0, 4, 0, 16, 0, 0, 0]
       \<and> take 12 (drop 190 bs)
           = [0x4C, 0x49, 0x53, 0x54, 4, 0, 0, 0, 0x6D, 0x6F, 0x76, 0x69]"
  by code_simp

end
